theory Spec2Isabelle
  imports Main "HOL-Library.Sublist"
begin

section \<open>Python strings\<close>

text \<open>
  Python \<^verbatim>\<open>str\<close> values are modelled as \<^typ>\<open>string\<close>. The operations below are the
  ones the engine uses: the substring test \<^verbatim>\<open>sub in s\<close>, \<^verbatim>\<open>str(i)\<close> for a
  non-negative index, \<^verbatim>\<open>s.split(sep)\<close> for a one-character separator and
  \<^verbatim>\<open>s.replace(old, new)\<close>.
\<close>

primrec py_in :: "string \<Rightarrow> string \<Rightarrow> bool" where
  "py_in sub [] = (sub = [])"
| "py_in sub (c # cs) = (prefix sub (c # cs) \<or> py_in sub cs)"

definition digit_char :: "nat \<Rightarrow> char" where
  "digit_char d = char_of (48 + d)"

fun str_of_nat :: "nat \<Rightarrow> string" where
  "str_of_nat n = (if n < 10 then [digit_char n] else str_of_nat (n div 10) @ [digit_char (n mod 10)])"

declare str_of_nat.simps [simp del]

primrec split_acc :: "char \<Rightarrow> string \<Rightarrow> string \<Rightarrow> string list" where
  "split_acc sep cur [] = [cur]"
| "split_acc sep cur (c # cs) =
     (if c = sep then cur # split_acc sep [] cs else split_acc sep (cur @ [c]) cs)"

definition py_split :: "string \<Rightarrow> char \<Rightarrow> string list" where
  "py_split s sep = split_acc sep [] s"

function py_replace :: "string \<Rightarrow> string \<Rightarrow> string \<Rightarrow> string" where
  "py_replace old new s =
     (if old = [] then new @ concat (map (\<lambda>c. c # new) s)
      else if s = [] then []
      else if prefix old s then new @ py_replace old new (drop (length old) s)
      else hd s # py_replace old new (tl s))"
  by pat_completeness auto
termination
  by (relation "measure (\<lambda>(old, new, s). length s)") auto

declare py_replace.simps [simp del]

section \<open>Exceptions\<close>

text \<open>
  Every \<^verbatim>\<open>raise\<close> of the source is a value of this type. \<open>SyntaxError\<close> is what
  \<^verbatim>\<open>ast.parse\<close> and \<^verbatim>\<open>exec\<close> raise on text that does not parse (the
  specification calls it the malformed-snippet error); \<open>GenericException\<close> is
  \<^verbatim>\<open>raise Exception(msg)\<close>; \<open>Raised\<close> stands for any exception coming out of a
  collaborator or of the evaluated snippet, identified by its text.
\<close>

datatype exn =
    SyntaxError
  | AttributeError
  | ValueError
  | IndexError
  | NoResultFoundError string
  | InvalidLLMOutputType "string list"
  | InvalidOutputValueMismatch string
  | MaliciousQueryError string
  | GenericException string
  | Raised string

section \<open>Security screen (agent/base.py)\<close>

definition squote :: char where
  "squote = CHR 0x27"

definition dquote :: char where
  "dquote = CHR 0x22"

definition dangerous_modules :: "string list" where
  "dangerous_modules =
     [ '' os'', '' io'', ''.os'', ''.io'',
       [squote] @ ''os'' @ [squote], [squote] @ ''io'' @ [squote],
       [dquote] @ ''os'' @ [dquote], [dquote] @ ''io'' @ [dquote],
       ''chr('', ''chr)'', ''chr '', ''(chr'', ''b64decode'' ]"

definition check_malicious_keywords_in_query :: "string \<Rightarrow> bool" where
  "check_malicious_keywords_in_query query = list_ex (\<lambda>module. py_in module query) dangerous_modules"

text \<open>
  A dataset as \<^verbatim>\<open>chat\<close> reads it: \<^verbatim>\<open>df.pandas_df.columns\<close> gives the columns or
  raises; a column is the text \<^verbatim>\<open>str(col)\<close> of its label with the outcome of
  \<^verbatim>\<open>df.pandas_df[col].dtype\<close> under that text, the text of the dtype or an exception.
\<close>

type_synonym dataset_view = "exn + (string \<times> (exn + string)) list"

text \<open>
  The agent, as far as \<^verbatim>\<open>chat\<close> reads it. \<open>pipeline\<close> is \<^verbatim>\<open>self.pipeline\<close>
  (\<open>None\<close> when no pipeline exists); its function is \<^verbatim>\<open>pipeline.run\<close>, applied to
  the \<^verbatim>\<open>enforce_grouping\<close> flag stored into the pipeline's context just before, the
  query and the output type; it returns a value or raises. \<open>security\<close> is the
  optional policy evaluator \<^verbatim>\<open>self.security.evaluate\<close>, which returns its verdict or
  raises. \<open>agent_dfs\<close> are the datasets, \<open>logger_log\<close> is \<^verbatim>\<open>self.logger.log\<close>
  (it gives the exception it raised, if any), \<open>llm_type\<close> is
  \<^verbatim>\<open>self.context.config.llm.type\<close> and \<open>new_prompt_id\<close> the text of the identifier
  that \<^verbatim>\<open>assign_prompt_id\<close> draws.
\<close>

record 'r agent =
  pipeline :: "(bool \<Rightarrow> string \<Rightarrow> string option \<Rightarrow> exn + 'r) option"
  security :: "(string \<Rightarrow> exn + bool) option"
  agent_dfs :: "dataset_view list"
  logger_log :: "string \<Rightarrow> exn option"
  llm_type :: "exn + string"
  new_prompt_id :: string

datatype 'r response = Message string | Output 'r

definition no_pipeline_message :: string where
  "no_pipeline_message =
     ''Unfortunately, I was not able to get your answers, because of the following error: No pipeline exists''"

definition malicious_keywords_message :: string where
  "malicious_keywords_message =
     ''The query contains references to io or os modules or b64decode method which can be used to execute or access system resources in unsafe ways.''"

definition malicious_policy_message :: string where
  "malicious_policy_message = ''Query can result in a malicious code''"

definition failure_message :: "string \<Rightarrow> string" where
  "failure_message text =
     ''Unfortunately, I was not able to get your answers, because of the following error:''
       @ [CHR 0x0A, CHR 0x0A] @ text @ [CHR 0x0A]"

text \<open>
  The column listing at the head of the \<^verbatim>\<open>try\<close> block of \<^verbatim>\<open>chat\<close>: the text it
  builds, or the first exception.
\<close>

fun list_dataset_columns :: "(string \<times> (exn + string)) list \<Rightarrow> exn + string" where
  "list_dataset_columns [] = Inr []"
| "list_dataset_columns ((col, dtype) # rest) =
     (case dtype of
        Inl e \<Rightarrow> Inl e
      | Inr coltype \<Rightarrow>
          (case list_dataset_columns rest of
             Inl e \<Rightarrow> Inl e
           | Inr columns \<Rightarrow> Inr (col @ '' ('' @ coltype @ ''), '' @ columns)))"

fun list_columns :: "nat \<Rightarrow> dataset_view list \<Rightarrow> exn + string" where
  "list_columns i [] = Inr []"
| "list_columns i (df # rest) =
     (case df of
        Inl e \<Rightarrow> Inl e
      | Inr cols \<Rightarrow>
          (case list_dataset_columns cols of
             Inl e \<Rightarrow> Inl e
           | Inr listed \<Rightarrow>
               (case list_columns (i + 1) rest of
                  Inl e \<Rightarrow> Inl e
                | Inr columns \<Rightarrow>
                    Inr (''Dataframe '' @ str_of_nat (i + 1) @ '': '' @ listed @ columns))))"

text \<open>
  The statements of the \<^verbatim>\<open>try\<close> block that precede the screen: the question is
  logged, the columns are listed, the type of the model is logged, the prompt identifier is
  assigned and logged. The result is the exception raised, if any.
\<close>

definition before_screen :: "'r agent \<Rightarrow> string \<Rightarrow> exn option" where
  "before_screen a query =
     (case logger_log a (''Question: '' @ query) of
        Some e \<Rightarrow> Some e
      | None \<Rightarrow>
          (case list_columns 0 (agent_dfs a) of
             Inl e \<Rightarrow> Some e
           | Inr columns \<Rightarrow>
               (case llm_type a of
                  Inl e \<Rightarrow> Some e
                | Inr t \<Rightarrow>
                    (case logger_log a (''Running PandasAI with '' @ t @ '' LLM...'') of
                       Some e \<Rightarrow> Some e
                     | None \<Rightarrow> logger_log a (''Prompt ID: '' @ new_prompt_id a)))))"

text \<open>
  The body of the \<^verbatim>\<open>try\<close> block of \<^verbatim>\<open>chat\<close>. The second component lists the
  queries handed to \<^verbatim>\<open>pipeline.run\<close>, in order: it is empty exactly when the pipeline
  (and with it code generation and the correction loop) was not invoked.
\<close>

definition chat_try ::
  "'r agent \<Rightarrow> (bool \<Rightarrow> string \<Rightarrow> string option \<Rightarrow> exn + 'r) \<Rightarrow> string \<Rightarrow> bool \<Rightarrow> string option
     \<Rightarrow> (exn + 'r) \<times> string list" where
  "chat_try a run query enforce_grouping output_type =
     (case before_screen a query of
        Some e \<Rightarrow> (Inl e, [])
      | None \<Rightarrow>
          (if check_malicious_keywords_in_query query
             then (Inl (MaliciousQueryError malicious_keywords_message), [])
           else
             (case (case security a of None \<Rightarrow> Inr False | Some evaluate \<Rightarrow> evaluate query) of
                Inl e \<Rightarrow> (Inl e, [])
              | Inr unsafe \<Rightarrow>
                  (if unsafe then (Inl (MaliciousQueryError malicious_policy_message), [])
                   else (run enforce_grouping query output_type, [query])))))"

text \<open>
  \<^verbatim>\<open>chat\<close> itself: without a pipeline it returns the fixed message at once; otherwise
  every exception of the body is caught and turned into a message built from
  \<^verbatim>\<open>str(exception)\<close>, which is the parameter \<open>py_str\<close>.
\<close>

definition chat ::
  "(exn \<Rightarrow> string) \<Rightarrow> 'r agent \<Rightarrow> string \<Rightarrow> bool \<Rightarrow> string option \<Rightarrow> 'r response \<times> string list" where
  "chat py_str a query enforce_grouping output_type =
     (case pipeline a of
        None \<Rightarrow> (Message no_pipeline_message, [])
      | Some run \<Rightarrow>
          (case chat_try a run query enforce_grouping output_type of
             (Inl exception, runs) \<Rightarrow> (Message (failure_message (py_str exception)), runs)
           | (Inr r, runs) \<Rightarrow> (Output r, runs)))"

section \<open>Fingerprint cache (helpers/pgcache.py)\<close>

text \<open>
  The cache reads the table \<^verbatim>\<open>promptmaster\<close> of an external database. A row carries
  the columns the query mentions; \<open>None\<close> is SQL \<^verbatim>\<open>NULL\<close>. The table is a list of
  rows, and \<^verbatim>\<open>fetchone\<close> takes the first row the \<^verbatim>\<open>WHERE\<close> clause selects.
\<close>

record promptmaster_row =
  data_source :: string
  dataframe_hash :: string
  normalized_question :: string
  code_executed :: "string option"
  bad_code :: "string option"

type_synonym promptmaster = "promptmaster_row list"

definition query_tag :: string where
  "query_tag = ''### QUERY'' @ [CHR 0x0A, CHR '' '']"

text \<open>\<^verbatim>\<open>Cache.set\<close>: the body is \<^verbatim>\<open>pass\<close>; the table is left as it is.\<close>

definition cache_set :: "string \<Rightarrow> string \<Rightarrow> promptmaster \<Rightarrow> promptmaster" where
  "cache_set key val db = db"

definition row_matches :: "string \<Rightarrow> string \<Rightarrow> string \<Rightarrow> promptmaster_row \<Rightarrow> bool" where
  "row_matches src hash question r \<longleftrightarrow>
     data_source r = src \<and> dataframe_hash r = hash \<and> normalized_question r = question
       \<and> bad_code r = None"

text \<open>
  \<^verbatim>\<open>Cache.get\<close>: \<^verbatim>\<open>parts[2]\<close> raises \<open>IndexError\<close> on a key with fewer than three
  \<^verbatim>\<open>~\<close>-separated parts.
\<close>

definition cache_get :: "string \<Rightarrow> promptmaster \<Rightarrow> exn + string option" where
  "cache_get key db =
     (let parts = py_split key (CHR ''~'') in
      if length parts < 3 then Inl IndexError
      else
        let question = py_replace query_tag [] (parts ! 2) in
        (case find (row_matches (parts ! 0) (parts ! 1) question) db of
           None \<Rightarrow> Inr None
         | Some question_exists \<Rightarrow> Inr (code_executed question_exists)))"

text \<open>\<^verbatim>\<open>Cache.get_cache_key\<close>, on the three values it reads from the context.\<close>

definition get_cache_key :: "string \<Rightarrow> string list \<Rightarrow> string \<Rightarrow> string" where
  "get_cache_key src column_hashes last_message = src @ ''~'' @ concat column_hashes @ ''~'' @ last_message"

section \<open>Syntax trees\<close>

text \<open>
  The part of Python's \<^verbatim>\<open>ast\<close> the predicate extractor reads. A literal is a
  non-negative integer, a string, a boolean or \<^verbatim>\<open>None\<close>. \<open>Compare\<close> and
  \<open>Assign\<close> carry their line number first; \<open>Assign\<close> has its first target apart
  (\<^verbatim>\<open>targets[0]\<close>; the grammar gives every assignment one). \<open>Other\<close> is any
  other kind of node (module, expression statement, \<^verbatim>\<open>if\<close>, \<^verbatim>\<open>for\<close>,
  arithmetic, list, slice, ...) with its child nodes in field order: a node without the
  fields \<^verbatim>\<open>value\<close>, \<^verbatim>\<open>id\<close>, \<^verbatim>\<open>attr\<close>, \<^verbatim>\<open>func\<close> and \<^verbatim>\<open>slice\<close>.
  Operator and context nodes are leaves that no test of the extractor selects; they are
  left out of the child lists.
\<close>

datatype pyconst = CNum nat | CStr string | CBool bool | CNone

datatype cmpop = Eq | NotEq | Lt | LtE | Gt | GtE | Is | IsNot | In | NotIn

datatype node =
    Name string
  | Constant pyconst
  | Subscript node node
  | Attribute node string
  | Call node "node list"
  | Compare nat node "cmpop list" "node list"
  | Assign nat node "node list" node
  | Other "node list"

text \<open>A Python value the extractor handles: a literal's value, or a node object.\<close>

datatype pyval = Val pyconst | Obj node

type_synonym predicate = "pyval \<times> string \<times> pyval"

text \<open>The ordered mapping from dataset label to predicates (\<^verbatim>\<open>defaultdict(list)\<close>).\<close>

type_synonym comparisons = "(string \<times> predicate list) list"

text \<open>An assignment node as the lookup reads it: line number, first target, value.\<close>

type_synonym assignment = "nat \<times> node \<times> node"

fun ast_comparator_map :: "cmpop \<Rightarrow> string" where
  "ast_comparator_map Eq = ''=''"
| "ast_comparator_map NotEq = ''!=''"
| "ast_comparator_map Lt = ''<''"
| "ast_comparator_map LtE = ''<=''"
| "ast_comparator_map Gt = ''>''"
| "ast_comparator_map GtE = ''>=''"
| "ast_comparator_map Is = ''is''"
| "ast_comparator_map IsNot = ''is not''"
| "ast_comparator_map In = ''in''"
| "ast_comparator_map NotIn = ''not in''"

text \<open>\<^verbatim>\<open>ast.iter_child_nodes\<close>.\<close>

fun children :: "node \<Rightarrow> node list" where
  "children (Name i) = []"
| "children (Constant c) = []"
| "children (Subscript v s) = [v, s]"
| "children (Attribute v a) = [v]"
| "children (Call f args) = f # args"
| "children (Compare ln left ops comparators) = left # comparators"
| "children (Assign ln t ts v) = t # ts @ [v]"
| "children (Other cs) = cs"

text \<open>
  \<^verbatim>\<open>ast.walk\<close>: a queue that starts with the root; the first node is taken off, its
  children are put at the end, and the node is yielded.
\<close>

function walk_queue :: "node list \<Rightarrow> node list" where
  "walk_queue [] = []"
| "walk_queue (n # todo) = n # walk_queue (todo @ children n)"
  by pat_completeness auto
termination
proof (relation "measure (\<lambda>todo. sum_list (map (\<lambda>n. 2 * size n + 1) todo))")
  show "wf (measure (\<lambda>todo. sum_list (map (\<lambda>n. 2 * size n + 1) todo)))"
    by simp
next
  fix n :: node and todo :: "node list"
  have weight: "sum_list (map (\<lambda>n. 2 * size n + 1) cs) = 2 * sum_list (map size cs) + length cs"
    for cs :: "node list"
    by (induction cs) simp_all
  have "sum_list (map (\<lambda>n. 2 * size n + 1) (children n)) < 2 * size n + 1"
    by (cases n) (simp_all add: size_list_conv_sum_list weight del: One_nat_def)
  then show "(todo @ children n, n # todo) \<in> measure (\<lambda>todo. sum_list (map (\<lambda>n. 2 * size n + 1) todo))"
    by simp
qed

definition walk :: "node \<Rightarrow> node list" where
  "walk tree = walk_queue [tree]"

text \<open>
  Modelled from the spec: \<^verbatim>\<open>AssignmentVisitor\<close> of \<^verbatim>\<open>helpers/node_visitors.py\<close>,
  which is not part of the sources at hand. The specification has it collect "all
  simple-assignment nodes, ordered by source position": a depth-first traversal in field
  order that records every assignment where it meets it.
\<close>

fun assignment_nodes :: "node \<Rightarrow> assignment list" where
  "assignment_nodes (Name i) = []"
| "assignment_nodes (Constant c) = []"
| "assignment_nodes (Subscript v s) = assignment_nodes v @ assignment_nodes s"
| "assignment_nodes (Attribute v a) = assignment_nodes v"
| "assignment_nodes (Call f args) = assignment_nodes f @ concat (map assignment_nodes args)"
| "assignment_nodes (Compare ln left ops comparators) =
     assignment_nodes left @ concat (map assignment_nodes comparators)"
| "assignment_nodes (Assign ln t ts v) =
     (ln, t, v) # assignment_nodes t @ concat (map assignment_nodes ts) @ assignment_nodes v"
| "assignment_nodes (Other cs) = concat (map assignment_nodes cs)"

section \<open>Predicate extractor (pipelines/chat/code\_execution.py)\<close>

text \<open>
  \<^verbatim>\<open>str(v)\<close> inside an f-string. The text of a node object holds its address; it is
  the parameter \<open>object_str\<close>.
\<close>

fun str_of_const :: "pyconst \<Rightarrow> string" where
  "str_of_const (CNum n) = str_of_nat n"
| "str_of_const (CStr s) = s"
| "str_of_const (CBool b) = (if b then ''True'' else ''False'')"
| "str_of_const CNone = ''None''"

fun str_of_val :: "(node \<Rightarrow> string) \<Rightarrow> pyval \<Rightarrow> string" where
  "str_of_val object_str (Val c) = str_of_const c"
| "str_of_val object_str (Obj n) = object_str n"

definition dfs_label :: "string \<Rightarrow> string" where
  "dfs_label index = ''dfs['' @ index @ '']''"

text \<open>
  \<^verbatim>\<open>node.value\<close> on the slice of a subscript: the literal's value, the object of an
  attribute access, the base of a subscript (and the value of an assignment, which the
  grammar never puts there); any other node has no such field.
\<close>

fun slice_value :: "node \<Rightarrow> exn + pyval" where
  "slice_value (Constant c) = Inr (Val c)"
| "slice_value (Attribute v a) = Inr (Obj v)"
| "slice_value (Subscript v s) = Inr (Obj v)"
| "slice_value (Assign ln t ts v) = Inr (Obj v)"
| "slice_value n = Inl AttributeError"

text \<open>
  \<^verbatim>\<open>_tokenize_operand\<close>, with the generator's output as a list. An exception inside the
  generator reaches whoever consumes it; both call sites consume it whole.
\<close>

fun tokenize_operand :: "node \<Rightarrow> exn + pyval list" where
  "tokenize_operand (Call f args) =
     (case f of Attribute v a \<Rightarrow> Inr [Val (CStr a)] | _ \<Rightarrow> Inl AttributeError)"
| "tokenize_operand (Subscript v s) =
     (case slice_value s of
        Inl e \<Rightarrow> Inl e
      | Inr slice_ \<Rightarrow>
          (case tokenize_operand v of
             Inl e \<Rightarrow> Inl e
           | Inr tokens \<Rightarrow> Inr (tokens @ [slice_])))"
| "tokenize_operand (Name i) = Inr [Val (CStr i)]"
| "tokenize_operand (Constant c) = Inr [Val c]"
| "tokenize_operand n = Inr []"

text \<open>
  The body of the \<^verbatim>\<open>try\<close> in \<^verbatim>\<open>_get_df_id_by_nearest_assignment\<close>: the new value
  of \<^verbatim>\<open>nearest_assignment\<close> when the three tests hold and the slice has a value;
  \<open>None\<close> when a test fails or an \<open>AttributeError\<close> skips the assignment.
\<close>

fun assigned_label :: "(node \<Rightarrow> string) \<Rightarrow> pyval \<Rightarrow> assignment \<Rightarrow> string option" where
  "assigned_label object_str target_name (ln, Name t, Subscript (Name d) s) =
     (if d = ''dfs'' \<and> Val (CStr t) = target_name
      then (case slice_value s of
              Inl e \<Rightarrow> None
            | Inr v \<Rightarrow> Some (dfs_label (str_of_val object_str v)))
      else None)"
| "assigned_label object_str target_name a = None"

text \<open>
  The loop of \<^verbatim>\<open>_get_df_id_by_nearest_assignment\<close> over the sorted assignments. It
  returns \<^verbatim>\<open>nearest_assignment\<close> at the first assignment below the current line;
  when the list ends, the function ends without a \<^verbatim>\<open>return\<close>: \<open>None\<close>.
\<close>

fun nearest_loop ::
  "(node \<Rightarrow> string) \<Rightarrow> nat \<Rightarrow> pyval \<Rightarrow> string option \<Rightarrow> assignment list \<Rightarrow> string option" where
  "nearest_loop object_str current_lineno target_name nearest_assignment [] = None"
| "nearest_loop object_str current_lineno target_name nearest_assignment (a # assignments) =
     (if fst a > current_lineno then nearest_assignment
      else nearest_loop object_str current_lineno target_name
             (case assigned_label object_str target_name a of
                Some label \<Rightarrow> Some label
              | None \<Rightarrow> nearest_assignment)
             assignments)"

definition get_df_id_by_nearest_assignment ::
  "(node \<Rightarrow> string) \<Rightarrow> nat \<Rightarrow> assignment list \<Rightarrow> pyval \<Rightarrow> string option" where
  "get_df_id_by_nearest_assignment object_str current_lineno assignments target_name =
     nearest_loop object_str current_lineno target_name None (sort_key fst assignments)"

text \<open>\<^verbatim>\<open>name, *slices = tokens\<close> raises \<open>ValueError\<close> when there is no token.\<close>

fun unpack :: "pyval list \<Rightarrow> exn + pyval \<times> pyval list" where
  "unpack [] = Inl ValueError"
| "unpack (name # slices) = Inr (name, slices)"

text \<open>\<^verbatim>\<open>slices[-1] if slices else name\<close>.\<close>

definition operand_str :: "pyval \<Rightarrow> pyval list \<Rightarrow> pyval" where
  "operand_str name slices = (if slices \<noteq> [] then last slices else name)"

text \<open>\<^verbatim>\<open>comparisons[current_df].append(p)\<close>: a new label goes to the end.\<close>

fun append_at :: "string \<Rightarrow> predicate \<Rightarrow> comparisons \<Rightarrow> comparisons" where
  "append_at label p [] = [(label, [p])]"
| "append_at label p ((l, ps) # rest) =
     (if l = label then (l, ps @ [p]) # rest else (l, ps) # append_at label p rest)"

text \<open>The inner loop over \<^verbatim>\<open>zip(node.ops, node.comparators)\<close>.\<close>

fun pairs_loop :: "string \<Rightarrow> pyval \<Rightarrow> (cmpop \<times> node) list \<Rightarrow> comparisons \<Rightarrow> exn + comparisons" where
  "pairs_loop current_df left_str [] comparisons = Inr comparisons"
| "pairs_loop current_df left_str ((op, right) # rest) comparisons =
     (case tokenize_operand right of
        Inl e \<Rightarrow> Inl e
      | Inr tokens \<Rightarrow>
          (case unpack tokens of
             Inl e \<Rightarrow> Inl e
           | Inr (name, slices) \<Rightarrow>
               pairs_loop current_df left_str rest
                 (append_at current_df (left_str, ast_comparator_map op, operand_str name slices)
                    comparisons)))"

text \<open>
  The body of the outer loop for one node, on the pair of \<^verbatim>\<open>current_df\<close> and
  \<^verbatim>\<open>comparisons\<close>. Only a comparison whose left operand is a subscript is handled.
\<close>

fun compare_node ::
  "(node \<Rightarrow> string) \<Rightarrow> assignment list \<Rightarrow> node \<Rightarrow> string \<times> comparisons \<Rightarrow> exn + string \<times> comparisons" where
  "compare_node object_str assignments (Compare ln (Subscript v s) ops comparators) (current_df, comparisons) =
     (case tokenize_operand (Subscript v s) of
        Inl e \<Rightarrow> Inl e
      | Inr tokens \<Rightarrow>
          (case unpack tokens of
             Inl e \<Rightarrow> Inl e
           | Inr (name, slices) \<Rightarrow>
               (let current_df' =
                      (case get_df_id_by_nearest_assignment object_str ln assignments name of
                         Some label \<Rightarrow> label
                       | None \<Rightarrow> current_df);
                    left_str = operand_str name slices
                in case pairs_loop current_df' left_str (zip ops comparators) comparisons of
                     Inl e \<Rightarrow> Inl e
                   | Inr comparisons' \<Rightarrow> Inr (current_df', comparisons'))))"
| "compare_node object_str assignments n st = Inr st"

fun nodes_loop ::
  "(node \<Rightarrow> string) \<Rightarrow> assignment list \<Rightarrow> node list \<Rightarrow> string \<times> comparisons \<Rightarrow> exn + string \<times> comparisons" where
  "nodes_loop object_str assignments [] st = Inr st"
| "nodes_loop object_str assignments (n # nodes) st =
     (case compare_node object_str assignments n st of
        Inl e \<Rightarrow> Inl e
      | Inr st' \<Rightarrow> nodes_loop object_str assignments nodes st')"

definition extract_comparisons :: "(node \<Rightarrow> string) \<Rightarrow> node \<Rightarrow> exn + comparisons" where
  "extract_comparisons object_str tree =
     (case nodes_loop object_str (assignment_nodes tree) (walk tree) (''dfs[0]'', []) of
        Inl e \<Rightarrow> Inl e
      | Inr (current_df, comparisons) \<Rightarrow> Inr comparisons)"

text \<open>
  \<^verbatim>\<open>_extract_filters\<close>. \<open>ast_parse\<close> is \<^verbatim>\<open>ast.parse\<close>: \<open>None\<close> when the text
  does not parse. The \<open>SyntaxError\<close> is raised again; any exception of the extraction
  gives the empty mapping.
\<close>

definition extract_filters ::
  "(string \<Rightarrow> node option) \<Rightarrow> (node \<Rightarrow> string) \<Rightarrow> string \<Rightarrow> exn + comparisons" where
  "extract_filters ast_parse object_str code =
     (case ast_parse code of
        None \<Rightarrow> Inl SyntaxError
      | Some parsed_tree \<Rightarrow>
          (case extract_comparisons object_str parsed_tree of
             Inl e \<Rightarrow> Inr []
           | Inr filters \<Rightarrow> Inr filters))"

section \<open>The extractor in the words of the specification\<close>


text \<open>
  The predicates of one comparison: one for each pair of operator and right operand, left
  to right, each with the token of the left operand.
\<close>

fun pair_predicates :: "pyval \<Rightarrow> (cmpop \<times> node) list \<Rightarrow> predicate list" where
  "pair_predicates left_str [] = []"
| "pair_predicates left_str ((op, right) # rest) =
     (case tokenize_operand right of
        Inr (name # slices) \<Rightarrow>
          (left_str, ast_comparator_map op, operand_str name slices) # pair_predicates left_str rest
      | _ \<Rightarrow> pair_predicates left_str rest)"

fun node_predicates :: "node \<Rightarrow> predicate list" where
  "node_predicates (Compare ln (Subscript v s) ops comparators) =
     (case tokenize_operand (Subscript v s) of
        Inr (name # slices) \<Rightarrow> pair_predicates (operand_str name slices) (zip ops comparators)
      | _ \<Rightarrow> [])"
| "node_predicates n = []"

text \<open>The number of pairs of a comparison on a subscript, and of a whole tree.\<close>

fun node_pairs :: "node \<Rightarrow> nat" where
  "node_pairs (Compare ln (Subscript v s) ops comparators) = length (zip ops comparators)"
| "node_pairs n = 0"

definition pair_count :: "node \<Rightarrow> nat" where
  "pair_count tree = sum_list (map node_pairs (walk tree))"

text \<open>
  The dataset label a comparison on a subscript is attributed to, given the label in force
  before it; and the labels of the comparisons of a list of nodes, in the order of the list.
\<close>

fun slot_after :: "(node \<Rightarrow> string) \<Rightarrow> assignment list \<Rightarrow> string \<Rightarrow> node \<Rightarrow> string" where
  "slot_after object_str assignments current_df (Compare ln (Subscript v s) ops comparators) =
     (case tokenize_operand (Subscript v s) of
        Inr (name # slices) \<Rightarrow>
          (case get_df_id_by_nearest_assignment object_str ln assignments name of
             Some label \<Rightarrow> label
           | None \<Rightarrow> current_df)
      | _ \<Rightarrow> current_df)"
| "slot_after object_str assignments current_df n = current_df"

fun is_subscript_compare :: "node \<Rightarrow> bool" where
  "is_subscript_compare (Compare ln (Subscript v s) ops comparators) = True"
| "is_subscript_compare n = False"

fun visited_slots :: "(node \<Rightarrow> string) \<Rightarrow> assignment list \<Rightarrow> string \<Rightarrow> node list \<Rightarrow> string list" where
  "visited_slots object_str assignments current_df [] = []"
| "visited_slots object_str assignments current_df (n # nodes) =
     (if is_subscript_compare n
      then slot_after object_str assignments current_df n
             # visited_slots object_str assignments (slot_after object_str assignments current_df n) nodes
      else visited_slots object_str assignments current_df nodes)"


section \<open>Execution stage (pipelines/chat/code\_execution.py)\<close>

text \<open>
  A result is the dictionary the snippet binds to \<^verbatim>\<open>result\<close>: its \<^verbatim>\<open>"type"\<close> tag
  and its \<^verbatim>\<open>"value"\<close>.
\<close>

record 'v result =
  result_type :: string
  result_value :: 'v

text \<open>
  What the stage calls and does not define. \<open>ast_parse\<close> and \<open>object_str\<close> are
  Python's own; \<open>columns\<close> lists the column names of a dataset with their dtypes;
  \<open>connector_execute\<close> is \<^verbatim>\<open>df.set_additional_filters(filters); df.execute()\<close>
  followed by reading \<^verbatim>\<open>df.pandas_df\<close>; \<open>py_exec\<close> is \<^verbatim>\<open>exec(code, environment)\<close>
  on the environment built around the materialized datasets, giving what the snippet bound
  to \<^verbatim>\<open>result\<close> (\<open>None\<close> when it bound nothing) or the exception it raised;
  \<open>validate\<close> and \<open>validate_result\<close> are the two checks of \<^verbatim>\<open>OutputValidator\<close>;
  \<open>type_str\<close> is the text of \<^verbatim>\<open>type(value)\<close>.
\<close>

record ('df, 'tbl, 'v) collaborators =
  ast_parse :: "string \<Rightarrow> node option"
  object_str :: "node \<Rightarrow> string"
  columns :: "'df \<Rightarrow> (string \<times> string) list"
  connector_execute :: "'df \<Rightarrow> predicate list \<Rightarrow> exn + 'tbl"
  py_exec :: "string \<Rightarrow> 'tbl option list \<Rightarrow> exn + 'v result option"
  validate :: "string \<Rightarrow> 'v result \<Rightarrow> bool \<times> string list"
  validate_result :: "'v result \<Rightarrow> bool"
  type_str :: "'v \<Rightarrow> string"

text \<open>
  The stage with the part of its context that \<^verbatim>\<open>execute\<close> reads. The two callbacks
  return or raise: \<open>on_failure\<close> gives the exception it raised, if any (it receives the
  formatted traceback, which is determined by the exception); \<open>on_retry\<close> gives the
  replacement snippet or the exception it raised.
\<close>

record 'df stage =
  dfs :: "'df list"
  max_retries :: int
  use_error_correction_framework :: bool
  direct_sql :: bool
  enforce_grouping :: bool
  output_type :: "string option"
  current_code_executed :: string
  on_failure :: "(string \<Rightarrow> exn \<Rightarrow> exn option) option"
  on_retry :: "(string \<Rightarrow> exn \<Rightarrow> exn + string) option"

text \<open>
  What an invocation does, in order: a grouping check that failed, a call of
  \<^verbatim>\<open>execute_code\<close>, a dataset slot materialized under its filters, the evaluation of
  a snippet, and the calls of the two callbacks.
\<close>

datatype event =
    GroupingCheckFailed string
  | ExecuteCode string
  | Materialize nat "predicate list"
  | Exec string
  | OnFailure string exn
  | OnRetry string exn

fun is_invocation :: "event \<Rightarrow> bool" where
  "is_invocation (GroupingCheckFailed code) = True"
| "is_invocation (ExecuteCode code) = True"
| "is_invocation ev = False"

definition sandbox_invocations :: "event list \<Rightarrow> nat" where
  "sandbox_invocations trace = length (filter is_invocation trace)"

fun is_materialize :: "event \<Rightarrow> bool" where
  "is_materialize (Materialize index filters) = True"
| "is_materialize ev = False"

text \<open>\<^verbatim>\<open>_required_dfs\<close>.\<close>

definition required_dfs :: "'df list \<Rightarrow> string \<Rightarrow> 'df option list" where
  "required_dfs all_dfs code =
     (if py_in ''for df in dfs'' code \<or> py_in ''pd.concat(dfs'' code then map Some all_dfs
      else
        let required =
              map (\<lambda>(i, df). if py_in (dfs_label (str_of_nat i)) code then Some df else None)
                (enumerate 0 all_dfs)
        in if required = [] then map Some all_dfs else required)"

text \<open>
  \<^verbatim>\<open>_get_originals\<close>, on the enumerated list. The filters come from the text kept in
  \<^verbatim>\<open>self._current_code_executed\<close>.
\<close>

fun get_originals_loop ::
  "('df, 'tbl, 'v) collaborators \<Rightarrow> string \<Rightarrow> (nat \<times> 'df option) list
     \<Rightarrow> (exn + 'tbl option list) \<times> event list" where
  "get_originals_loop X current_code [] = (Inr [], [])"
| "get_originals_loop X current_code ((index, None) # rest) =
     (case get_originals_loop X current_code rest of
        (Inl e, trace) \<Rightarrow> (Inl e, trace)
      | (Inr original_dfs, trace) \<Rightarrow> (Inr (None # original_dfs), trace))"
| "get_originals_loop X current_code ((index, Some df) # rest) =
     (case extract_filters (ast_parse X) (object_str X) current_code of
        Inl e \<Rightarrow> (Inl e, [])
      | Inr extracted_filters \<Rightarrow>
          (let filters = (case map_of extracted_filters (dfs_label (str_of_nat index)) of
                            None \<Rightarrow> [] | Some fs \<Rightarrow> fs)
           in case connector_execute X df filters of
                Inl e \<Rightarrow> (Inl e, [Materialize index filters])
              | Inr pandas_df \<Rightarrow>
                  (case get_originals_loop X current_code rest of
                     (Inl e, trace) \<Rightarrow> (Inl e, Materialize index filters # trace)
                   | (Inr original_dfs, trace) \<Rightarrow>
                       (Inr (Some pandas_df # original_dfs), Materialize index filters # trace))))"

definition get_originals ::
  "('df, 'tbl, 'v) collaborators \<Rightarrow> string \<Rightarrow> 'df option list \<Rightarrow> (exn + 'tbl option list) \<times> event list" where
  "get_originals X current_code required = get_originals_loop X current_code (enumerate 0 required)"

text \<open>
  \<^verbatim>\<open>execute_code\<close>. The whitelisted environment and the skills are part of what
  \<open>py_exec\<close> evaluates in; \<^verbatim>\<open>self._dfs[0]\<close> raises \<open>IndexError\<close> without datasets.
\<close>

definition execute_code ::
  "('df, 'tbl, 'v) collaborators \<Rightarrow> 'df stage \<Rightarrow> string \<Rightarrow> (exn + 'v result) \<times> event list" where
  "execute_code X S code =
     (case get_originals X (current_code_executed S) (required_dfs (dfs S) code) of
        (Inl e, trace) \<Rightarrow> (Inl e, trace)
      | (Inr originals, trace) \<Rightarrow>
          (if direct_sql S \<and> dfs S = [] then (Inl IndexError, trace)
           else
             (case py_exec X code originals of
                Inl e \<Rightarrow> (Inl e, trace @ [Exec code])
              | Inr None \<Rightarrow> (Inl (NoResultFoundError ''No result returned''), trace @ [Exec code])
              | Inr (Some r) \<Rightarrow> (Inr r, trace @ [Exec code]))))"

text \<open>The text of the exception of the grouping check.\<close>

definition grouping_message :: "('df, 'tbl, 'v) collaborators \<Rightarrow> 'df list \<Rightarrow> string \<Rightarrow> string" where
  "grouping_message X all_dfs code =
     ''groupby() statement is missing. Group the data by '' @
     concat (map (\<lambda>df. concat (map (\<lambda>(col, dtype).
                   if dtype = ''object'' \<and> py_in ([squote] @ col @ [squote]) code
                   then [squote] @ col @ [squote] @ '', '' else [])
                 (columns X df))) all_dfs)"

definition mismatch_message :: "('df, 'tbl, 'v) collaborators \<Rightarrow> 'v result \<Rightarrow> string" where
  "mismatch_message X r =
     ''Value type '' @ type_str X (result_value r) @ '' must match with type '' @ result_type r"

text \<open>
  The two checks on a result, in the order of the source: the hint, when the context holds
  one that is neither empty nor \<^verbatim>\<open>None\<close>, then the value against the tag.
\<close>

definition check_result :: "('df, 'tbl, 'v) collaborators \<Rightarrow> 'df stage \<Rightarrow> 'v result \<Rightarrow> exn option" where
  "check_result X S r =
     (case (case output_type S of
              None \<Rightarrow> None
            | Some output_helper \<Rightarrow>
                (if output_helper = [] then None
                 else (case validate X output_helper r of
                         (validation_ok, validation_errors) \<Rightarrow>
                           if \<not> validation_ok then Some (InvalidLLMOutputType validation_errors) else None))) of
        Some e \<Rightarrow> Some e
      | None \<Rightarrow>
          (if \<not> validate_result X r then Some (InvalidOutputValueMismatch (mismatch_message X r))
           else None))"

text \<open>The body of the \<^verbatim>\<open>try\<close> of one iteration of the loop of \<^verbatim>\<open>execute\<close>.\<close>

definition attempt ::
  "('df, 'tbl, 'v) collaborators \<Rightarrow> 'df stage \<Rightarrow> string \<Rightarrow> (exn + 'v result) \<times> event list" where
  "attempt X S code_to_run =
     (if enforce_grouping S \<and> \<not> py_in ''.groupby'' code_to_run
      then (Inl (GenericException (grouping_message X (dfs S) code_to_run)),
            [GroupingCheckFailed code_to_run])
      else
        (case execute_code X S code_to_run of
           (Inl e, trace) \<Rightarrow> (Inl e, ExecuteCode code_to_run # trace)
         | (Inr r, trace) \<Rightarrow>
             (case check_result X S r of
                Some e \<Rightarrow> (Inl e, ExecuteCode code_to_run # trace)
              | None \<Rightarrow> (Inr r, ExecuteCode code_to_run # trace))))"

text \<open>
  The loop of \<^verbatim>\<open>execute\<close> with its \<^verbatim>\<open>except\<close> clause. A result \<open>Inr None\<close> is the
  loop left by its condition, with \<^verbatim>\<open>result\<close> still \<^verbatim>\<open>None\<close>.
\<close>

function execute_loop ::
  "('df, 'tbl, 'v) collaborators \<Rightarrow> 'df stage \<Rightarrow> int \<Rightarrow> string
     \<Rightarrow> (exn + 'v result option) \<times> event list" where
  "execute_loop X S retry_count code_to_run =
     (if retry_count \<le> max_retries S then
        (case attempt X S code_to_run of
           (Inr r, trace) \<Rightarrow> (Inr (Some r), trace)
         | (Inl e, trace) \<Rightarrow>
             (case on_failure S of
                None \<Rightarrow>
                  (if \<not> use_error_correction_framework S \<or> retry_count \<ge> max_retries S
                   then (Inl e, trace)
                   else
                     (case on_retry S of
                        None \<Rightarrow> (Inl e, trace)
                      | Some repair \<Rightarrow>
                          (case repair code_to_run e of
                             Inl e' \<Rightarrow> (Inl e', trace @ [OnRetry code_to_run e])
                           | Inr code' \<Rightarrow>
                               (case execute_loop X S (retry_count + 1) code' of
                                  (r, trace') \<Rightarrow> (r, trace @ OnRetry code_to_run e # trace')))))
              | Some notify \<Rightarrow>
                  (case notify code_to_run e of
                     Some e' \<Rightarrow> (Inl e', trace @ [OnFailure code_to_run e])
                   | None \<Rightarrow>
                       (if \<not> use_error_correction_framework S \<or> retry_count \<ge> max_retries S
                        then (Inl e, trace @ [OnFailure code_to_run e])
                        else
                          (case on_retry S of
                             None \<Rightarrow> (Inl e, trace @ [OnFailure code_to_run e])
                           | Some repair \<Rightarrow>
                               (case repair code_to_run e of
                                  Inl e' \<Rightarrow>
                                    (Inl e', trace @ [OnFailure code_to_run e, OnRetry code_to_run e])
                                | Inr code' \<Rightarrow>
                                    (case execute_loop X S (retry_count + 1) code' of
                                       (r, trace') \<Rightarrow>
                                         (r, trace @ OnFailure code_to_run e # OnRetry code_to_run e # trace'))))))))
      else (Inr None, []))"
  by pat_completeness auto
termination
  by (relation "measure (\<lambda>(X, S, retry_count, code_to_run). nat (max_retries S + 1 - retry_count))") auto

declare execute_loop.simps [simp del]

text \<open>\<^verbatim>\<open>execute\<close>: the loop from \<^verbatim>\<open>retry_count = 0\<close> on the input snippet.\<close>

definition execute ::
  "('df, 'tbl, 'v) collaborators \<Rightarrow> 'df stage \<Rightarrow> string \<Rightarrow> (exn + 'v result option) \<times> event list" where
  "execute X S input = execute_loop X S 0 input"

section \<open>Concrete inputs\<close>

text \<open>The inputs at which the theorems below are evaluated.\<close>

definition example_str :: "exn \<Rightarrow> string" where
  "example_str e = (case e of MaliciousQueryError m \<Rightarrow> m | Raised m \<Rightarrow> m | _ \<Rightarrow> [])"

definition example_run :: "bool \<Rightarrow> string \<Rightarrow> string option \<Rightarrow> exn + nat" where
  "example_run grouping query hint = Inr 247"

definition example_agent :: "nat agent" where
  "example_agent =
     \<lparr>pipeline = Some example_run, security = None,
      agent_dfs = [Inr [(''loan_status'', Inr ''object''), (''age'', Inr ''int64'')]],
      logger_log = (\<lambda>message. None), llm_type = Inr ''openai'',
      new_prompt_id = ''7f0c5a52-6e0b-4a51-9d0e-3f1c7c1d2b90''\<rparr>"

text \<open>
  The same agent without a pipeline, and with a dataset whose columns are labelled
  \<^verbatim>\<open>0\<close> and \<^verbatim>\<open>1\<close>: the lookup under the text \<^verbatim>\<open>'0'\<close> raises \<^verbatim>\<open>KeyError\<close>.
\<close>

definition agent_without_pipeline :: "nat agent" where
  "agent_without_pipeline = example_agent\<lparr>pipeline := None\<rparr>"

definition agent_with_numbered_columns :: "nat agent" where
  "agent_with_numbered_columns =
     example_agent\<lparr>agent_dfs := [Inr [(''0'', Inl (Raised ''KeyError: 0'')), (''1'', Inl (Raised ''KeyError: 1''))]]\<rparr>"

definition example_row :: promptmaster_row where
  "example_row =
     \<lparr>data_source = ''src'', dataframe_hash = ''hash'', normalized_question = ''question'',
      code_executed = Some ''result = 1'', bad_code = None\<rparr>"

text \<open>
  Result values for the examples: a number, a text, a table of rows; with the text of
  their Python type.
\<close>

datatype rvalue = Number int | Text string | Table "int list list"

fun rvalue_type :: "rvalue \<Rightarrow> string" where
  "rvalue_type (Number n) = ''<class 'int'>''"
| "rvalue_type (Text s) = ''<class 'str'>''"
| "rvalue_type (Table rows) = ''<class 'pandas.core.frame.DataFrame'>''"

text \<open>
  Modelled from the spec: \<^verbatim>\<open>OutputValidator.validate\<close> of \<^verbatim>\<open>helpers/output_validator.py\<close>,
  which is not part of the sources at hand. Section 4.5: "numeric hint requires a scalar
  numeric result; "dataframe" hint requires a table-shaped result; "plot" hint requires a
  file/reference-shaped result; "string" accepts any textually representable result".
\<close>

definition spec_validate :: "string \<Rightarrow> rvalue result \<Rightarrow> bool \<times> string list" where
  "spec_validate hint r =
     (let ok = (if hint = ''number'' then result_type r = ''number'' \<and> (case result_value r of Number n \<Rightarrow> True | _ \<Rightarrow> False)
                else if hint = ''dataframe'' then result_type r = ''dataframe'' \<and> (case result_value r of Table rows \<Rightarrow> True | _ \<Rightarrow> False)
                else if hint = ''plot'' then result_type r = ''plot'' \<and> (case result_value r of Text path \<Rightarrow> True | _ \<Rightarrow> False)
                else True)
      in (ok, if ok then [] else [''The result is not of the expected type '' @ hint]))"

text \<open>
  Modelled from the spec: \<^verbatim>\<open>OutputValidator.validate_result\<close> of the same file.
  Section 4.5: "the result's internal value must be shape-consistent with its own declared
  type tag (e.g., a result tagged as tabular must actually carry two-dimensional data)".
\<close>

definition spec_validate_result :: "rvalue result \<Rightarrow> bool" where
  "spec_validate_result r =
     (if result_type r = ''number'' then (case result_value r of Number n \<Rightarrow> True | _ \<Rightarrow> False)
      else if result_type r = ''string'' then (case result_value r of Text s \<Rightarrow> True | _ \<Rightarrow> False)
      else if result_type r = ''dataframe'' then (case result_value r of Table rows \<Rightarrow> True | _ \<Rightarrow> False)
      else if result_type r = ''plot'' then (case result_value r of Text path \<Rightarrow> True | _ \<Rightarrow> False)
      else True)"

text \<open>Snippets with their syntax trees, and a snippet that does not parse.\<close>

definition dfs0 :: node where
  "dfs0 = Subscript (Name ''dfs'') (Constant (CNum 0))"

definition snippet_a :: string where
  "snippet_a = ''result = dfs[0][dfs[0]['age'] > 30]''"

definition tree_a :: node where
  "tree_a = Other [Assign 1 (Name ''result'') []
                     (Subscript dfs0 (Compare 1 (Subscript dfs0 (Constant (CStr ''age''))) [Gt] [Constant (CNum 30)]))]"

definition snippet_b :: string where
  "snippet_b = ''result = dfs[0][dfs[0]['age'] < 20]''"

definition tree_b :: node where
  "tree_b = Other [Assign 1 (Name ''result'') []
                     (Subscript dfs0 (Compare 1 (Subscript dfs0 (Constant (CStr ''age''))) [Lt] [Constant (CNum 20)]))]"

definition snippet_bad :: string where
  "snippet_bad = ''result = dfs[0][''"

definition snippet_m :: string where
  "snippet_m = ''result = {'type': 'dataframe', 'value': 5}''"

definition tree_m :: node where
  "tree_m = Other [Assign 1 (Name ''result'') []
                     (Other [Constant (CStr ''type''), Constant (CStr ''value''),
                             Constant (CStr ''dataframe''), Constant (CNum 5)])]"

definition snippet_n :: string where
  "snippet_n = ''result = {'type': 'number', 'value': 247}''"

definition tree_n :: node where
  "tree_n = Other [Assign 1 (Name ''result'') []
                     (Other [Constant (CStr ''type''), Constant (CStr ''value''),
                             Constant (CStr ''number''), Constant (CNum 247)])]"

definition example_parse :: "string \<Rightarrow> node option" where
  "example_parse =
     map_of [(snippet_a, tree_a), (snippet_b, tree_b), (snippet_m, tree_m), (snippet_n, tree_n)]"

definition example_exec :: "string \<Rightarrow> string option list \<Rightarrow> exn + rvalue result option" where
  "example_exec code originals =
     (if code = snippet_a then Inl (Raised ''KeyError'')
      else if code = snippet_b then Inr (Some \<lparr>result_type = ''dataframe'', result_value = Table [[18]]\<rparr>)
      else if code = snippet_m then Inr (Some \<lparr>result_type = ''dataframe'', result_value = Number 5\<rparr>)
      else if code = snippet_n then Inr (Some \<lparr>result_type = ''number'', result_value = Number 247\<rparr>)
      else Inl SyntaxError)"

definition example_object_str :: "node \<Rightarrow> string" where
  "example_object_str n = ''<ast.Name object>''"

definition example_collaborators :: "(string, string, rvalue) collaborators" where
  "example_collaborators =
     \<lparr>ast_parse = example_parse, object_str = example_object_str,
      columns = (\<lambda>df. [(''loan_status'', ''object''), (''age'', ''int64'')]),
      connector_execute = (\<lambda>df filters. Inr df),
      py_exec = example_exec, validate = spec_validate, validate_result = spec_validate_result,
      type_str = rvalue_type\<rparr>"

definition example_stage :: "string stage" where
  "example_stage =
     \<lparr>dfs = [''loans''], max_retries = 1, use_error_correction_framework = True, direct_sql = False,
      enforce_grouping = False, output_type = None, current_code_executed = snippet_a,
      on_failure = None, on_retry = Some (\<lambda>code e. Inr snippet_b)\<rparr>"


definition tree_t :: node where
  "tree_t = Other [Assign 1 (Name ''a'') [] (Subscript (Name ''dfs'') (Constant (CNum 1))),
                   Other [Compare 2 (Subscript (Name ''a'') (Constant (CStr ''x''))) [Gt] [Constant (CNum 1)]]]"

definition tree_u :: node where
  "tree_u = Other [Other [Name ''cond'',
                     Other [Compare 2 (Subscript (Name ''df'') (Constant (CStr ''a''))) [Gt] [Constant (CNum 1)]]],
                   Other [Compare 3 (Subscript (Name ''df'') (Constant (CStr ''b''))) [Lt, LtE]
                            [Constant (CNum 2), Constant (CNum 3)]]]"

definition looping_stage :: "string stage" where
  "looping_stage = example_stage\<lparr>max_retries := 2, on_retry := Some (\<lambda>code e. Inr snippet_a)\<rparr>"

definition plain_stage :: "string stage" where
  "plain_stage = example_stage\<lparr>use_error_correction_framework := False\<rparr>"

definition unparseable_stage :: "string stage" where
  "unparseable_stage = plain_stage\<lparr>current_code_executed := snippet_bad\<rparr>"

definition grouping_stage :: "string stage" where
  "grouping_stage = unparseable_stage\<lparr>enforce_grouping := True\<rparr>"

definition repairing_stage :: "string stage" where
  "repairing_stage =
     example_stage\<lparr>current_code_executed := snippet_bad, on_retry := Some (\<lambda>code e. Inr snippet_n)\<rparr>"

definition hinted_stage :: "string stage" where
  "hinted_stage = example_stage\<lparr>output_type := Some ''number''\<rparr>"

section \<open>Properties of the string operations\<close>

lemma py_in_iff_sublist: "py_in sub s \<longleftrightarrow> sublist sub s"
  by (induction s) (auto simp: sublist_Cons_right)

section \<open>Security screen\<close>

lemma check_malicious_iff:
  "check_malicious_keywords_in_query query \<longleftrightarrow> (\<exists>m \<in> set dangerous_modules. sublist m query)"
  by (simp add: check_malicious_keywords_in_query_def list_ex_iff py_in_iff_sublist)

text \<open>
  C3, as stated, fails. When the agent has no pipeline, a query with the denylisted
  substring \<^verbatim>\<open>" os"\<close> is answered with the fixed no-pipeline message: the screen is
  never reached and no \<open>MaliciousQueryError\<close> exists anywhere. When the column listing
  that precedes the screen raises, the answer is built from that exception, again with no
  \<open>MaliciousQueryError\<close>. Neither answer is the message that \<^verbatim>\<open>chat\<close> builds from a
  \<open>MaliciousQueryError\<close>.
\<close>

theorem chat_no_pipeline_counterexample:
  "check_malicious_keywords_in_query '' os''
   \<and> chat example_str agent_without_pipeline '' os'' False None = (Message no_pipeline_message, [])
   \<and> no_pipeline_message \<noteq> failure_message (example_str (MaliciousQueryError malicious_keywords_message))
   \<and> chat example_str agent_with_numbered_columns '' os'' False None
       = (Message (failure_message ''KeyError: 0''), [])
   \<and> failure_message ''KeyError: 0''
       \<noteq> failure_message (example_str (MaliciousQueryError malicious_keywords_message))"
  by (simp add: check_malicious_keywords_in_query_def dangerous_modules_def chat_def chat_try_def
      before_screen_def agent_without_pipeline_def agent_with_numbered_columns_def example_agent_def
      example_str_def no_pipeline_message_def failure_message_def malicious_keywords_message_def)

text \<open>
  C3, amended: when the agent has a pipeline and the statements of \<^verbatim>\<open>chat\<close> that
  precede the screen (logging, the column listing, the prompt identifier) raise nothing,
  every query that contains a denylist substring, or that the supplied policy evaluator
  judges unsafe, makes the body of \<^verbatim>\<open>chat\<close> raise \<open>MaliciousQueryError\<close> with the
  pipeline (hence generation and the correction loop) not invoked at all; \<^verbatim>\<open>chat\<close>
  catches the exception and returns the failure message built from its text.
\<close>

theorem chat_screens_query:
  assumes "pipeline a = Some run"
      and "before_screen a query = None"
      and "(\<exists>m \<in> set dangerous_modules. sublist m query)
           \<or> (\<exists>evaluate. security a = Some evaluate \<and> evaluate query = Inr True)"
  shows "\<exists>msg. chat_try a run query grouping hint = (Inl (MaliciousQueryError msg), [])
          \<and> chat py_str a query grouping hint
              = (Message (failure_message (py_str (MaliciousQueryError msg))), [])"
proof (cases "check_malicious_keywords_in_query query")
  case True
  then show ?thesis using assms(1,2) by (simp add: chat_try_def chat_def)
next
  case False
  with assms(3) obtain evaluate where "security a = Some evaluate" "evaluate query = Inr True"
    by (auto simp: check_malicious_iff)
  with False show ?thesis using assms(1,2) by (simp add: chat_try_def chat_def)
qed

theorem chat_screens_query_witness:
  "\<exists>msg. chat_try example_agent example_run ''import os'' False None
            = (Inl (MaliciousQueryError msg), [])
        \<and> chat example_str example_agent ''import os'' False None
            = (Message (failure_message (example_str (MaliciousQueryError msg))), [])"
proof -
  have 1: "pipeline example_agent = Some example_run"
    by (simp add: example_agent_def)
  have 2: "before_screen example_agent ''import os'' = None"
    by (simp add: before_screen_def example_agent_def)
  have "sublist '' os'' ''import os''"
    by (simp add: py_in_iff_sublist [symmetric])
  then have 3: "(\<exists>m \<in> set dangerous_modules. sublist m ''import os'')
       \<or> (\<exists>evaluate. security example_agent = Some evaluate \<and> evaluate ''import os'' = Inr True)"
    by (auto simp: dangerous_modules_def)
  show ?thesis using chat_screens_query [OF 1 2 3] by blast
qed

section \<open>Fingerprint cache\<close>

text \<open>
  C10, as stated, fails: \<^verbatim>\<open>set\<close> stores nothing, so on an empty table
  \<^verbatim>\<open>set(key, snippet)\<close> followed by \<^verbatim>\<open>get(key)\<close> returns absent, not the snippet.
\<close>

theorem cache_set_get_counterexample:
  "cache_get ''src~hash~question'' (cache_set ''src~hash~question'' ''result = 1'' []) = Inr None"
  by (simp add: cache_get_def cache_set_def py_split_def)

text \<open>
  C10, amended: for a key with at least three \<^verbatim>\<open>~\<close>-separated components,
  \<^verbatim>\<open>get(key)\<close> after \<^verbatim>\<open>set(key, snippet)\<close> returns what \<^verbatim>\<open>get(key)\<close> returned before
  the \<^verbatim>\<open>set\<close>: the stored code of the first row of the external table whose data source,
  dataset fingerprint and normalized question equal the key's first three components (the
  query tag removed from the third) and whose bad-code mark is null, and absent when there
  is no such row; in particular absent when no row has that normalized question.
\<close>

theorem cache_get_after_set:
  assumes "py_split key (CHR ''~'') = src # hash # q # rest"
  shows "cache_get key (cache_set key snippet db) = cache_get key db
       \<and> cache_get key db =
           Inr (case find (row_matches src hash (py_replace query_tag [] q)) db of
                  None \<Rightarrow> None | Some r \<Rightarrow> code_executed r)
       \<and> ((\<forall>r \<in> set db. normalized_question r \<noteq> py_replace query_tag [] q)
            \<longrightarrow> cache_get key db = Inr None)"
proof -
  have g: "cache_get key db =
           Inr (case find (row_matches src hash (py_replace query_tag [] q)) db of
                  None \<Rightarrow> None | Some r \<Rightarrow> code_executed r)"
    using assms by (simp add: cache_get_def Let_def split: option.splits)
  have "find (row_matches src hash (py_replace query_tag [] q)) db = None"
    if "\<forall>r \<in> set db. normalized_question r \<noteq> py_replace query_tag [] q"
    using that by (auto simp: find_None_iff row_matches_def)
  with g show ?thesis
    by (simp add: cache_set_def)
qed

theorem cache_get_after_set_witness:
  "cache_get ''src~hash~question'' (cache_set ''src~hash~question'' ''result = 2'' [example_row])
     = Inr (Some ''result = 1'')
   \<and> cache_get ''src~hash~other'' [example_row] = Inr None"
proof -
  have 1: "py_split ''src~hash~question'' (CHR ''~'') = ''src'' # ''hash'' # ''question'' # []"
    by (simp add: py_split_def)
  have 2: "py_split ''src~hash~other'' (CHR ''~'') = ''src'' # ''hash'' # ''other'' # []"
    by (simp add: py_split_def)
  have q1: "py_replace query_tag [] ''question'' = ''question''"
    by (simp add: py_replace.simps query_tag_def)
  have q2: "py_replace query_tag [] ''other'' = ''other''"
    by (simp add: py_replace.simps query_tag_def)
  show ?thesis
    using cache_get_after_set [OF 1, of "''result = 2''" "[example_row]"]
          cache_get_after_set [OF 2, of "''result = 2''" "[example_row]"]
    by (simp add: q1 q2 row_matches_def example_row_def)
qed

section \<open>Retry-correction loop\<close>

lemma get_originals_loop_events:
  "ev \<in> set (snd (get_originals_loop X cc xs)) \<Longrightarrow> is_materialize ev"
  by (induction X cc xs rule: get_originals_loop.induct)
     (auto simp: Let_def split: sum.splits prod.splits option.splits)

lemma execute_code_trace:
  "snd (execute_code X S code) = snd (get_originals X (current_code_executed S) (required_dfs (dfs S) code))
   \<or> snd (execute_code X S code)
       = snd (get_originals X (current_code_executed S) (required_dfs (dfs S) code)) @ [Exec code]"
  by (simp add: execute_code_def split: sum.splits prod.splits option.splits)

lemma execute_code_events:
  assumes "ev \<in> set (snd (execute_code X S code))"
  shows "\<not> is_invocation ev"
proof -
  from assms execute_code_trace [of X S code]
  have "ev = Exec code \<or> ev \<in> set (snd (get_originals X (current_code_executed S) (required_dfs (dfs S) code)))"
    by auto
  then show ?thesis
    by (cases ev) (auto simp: get_originals_def dest: get_originals_loop_events)
qed

lemma attempt_invocations: "sandbox_invocations (snd (attempt X S code)) = 1"
proof -
  have "filter is_invocation (snd (execute_code X S code)) = []"
    by (auto simp: filter_empty_conv dest: execute_code_events)
  then show ?thesis
    by (auto simp: attempt_def sandbox_invocations_def split: sum.splits prod.splits option.splits)
qed

lemma sandbox_invocations_append [simp]:
  "sandbox_invocations (xs @ ys) = sandbox_invocations xs + sandbox_invocations ys"
  by (simp add: sandbox_invocations_def)

lemma sandbox_invocations_callbacks [simp]:
  "sandbox_invocations (OnFailure c e # xs) = sandbox_invocations xs"
  "sandbox_invocations (OnRetry c e # xs) = sandbox_invocations xs"
  "sandbox_invocations [] = 0"
  by (simp_all add: sandbox_invocations_def)

lemma attempt_invocation_event:
  "filter is_invocation (snd (attempt X S code)) = [ExecuteCode code]
   \<or> filter is_invocation (snd (attempt X S code)) = [GroupingCheckFailed code]"
proof -
  have "filter is_invocation (snd (execute_code X S code)) = []"
    by (auto simp: filter_empty_conv dest: execute_code_events)
  then show ?thesis
    by (auto simp: attempt_def split: sum.splits prod.splits option.splits)
qed

lemma execute_loop_failed:
  assumes "attempt X S code = (Inl e, t)"
    and "rc \<le> max_retries S"
    and "\<forall>notify. on_failure S = Some notify \<longrightarrow> notify code e = None"
  shows "execute_loop X S rc code =
     (let t1 = t @ (case on_failure S of None \<Rightarrow> [] | Some notify \<Rightarrow> [OnFailure code e]) in
      if \<not> use_error_correction_framework S \<or> max_retries S \<le> rc then (Inl e, t1)
      else (case on_retry S of
              None \<Rightarrow> (Inl e, t1)
            | Some repair \<Rightarrow>
                (case repair code e of
                   Inl e' \<Rightarrow> (Inl e', t1 @ [OnRetry code e])
                 | Inr code' \<Rightarrow>
                     (case execute_loop X S (rc + 1) code' of
                        (r, t') \<Rightarrow> (r, t1 @ OnRetry code e # t')))))"
proof (cases "on_failure S")
  case None
  with assms(1,2) show ?thesis
    by (subst execute_loop.simps) (simp add: Let_def split: option.splits sum.splits prod.splits)
next
  case (Some notify)
  with assms(3) have "notify code e = None" by simp
  with Some assms(1,2) show ?thesis
    by (subst execute_loop.simps) (simp add: Let_def split: option.splits sum.splits prod.splits)
qed

lemma loop_exhausts:
  assumes ecf: "use_error_correction_framework S"
    and rep: "on_retry S = Some repair"
    and repaired: "\<forall>c e. \<exists>c' e' t'. repair c e = Inr c' \<and> attempt X S c' = (Inl e', t')"
    and quiet: "\<forall>notify c e. on_failure S = Some notify \<longrightarrow> notify c e = None"
  shows "rc \<le> max_retries S \<Longrightarrow> nat (max_retries S - rc) = n \<Longrightarrow>
     \<exists>e t. attempt X S code = (Inl e, t) \<Longrightarrow>
     \<exists>c e t. length (filter is_invocation (snd (execute_loop X S rc code))) = n + 1
       \<and> last (filter is_invocation (snd (execute_loop X S rc code))) \<in> {ExecuteCode c, GroupingCheckFailed c}
       \<and> attempt X S c = (Inl e, t)
       \<and> fst (execute_loop X S rc code) = Inl e"
proof (induction n arbitrary: rc code)
  case 0
  then have rc: "rc \<le> max_retries S" "max_retries S \<le> rc" by simp_all
  from "0.prems"(3) obtain e t where a: "attempt X S code = (Inl e, t)" by blast
  have ev: "filter is_invocation t = [ExecuteCode code] \<or> filter is_invocation t = [GroupingCheckFailed code]"
    using attempt_invocation_event [of X S code] a by simp
  have q: "\<forall>notify. on_failure S = Some notify \<longrightarrow> notify code e = None"
    using quiet by blast
  have "execute_loop X S rc code
          = (Inl e, t @ (case on_failure S of None \<Rightarrow> [] | Some notify \<Rightarrow> [OnFailure code e]))"
    using execute_loop_failed [OF a rc(1) q] rc(2) by (simp add: Let_def)
  then have "fst (execute_loop X S rc code) = Inl e"
    "filter is_invocation (snd (execute_loop X S rc code)) = filter is_invocation t"
    by (simp_all split: option.splits)
  then show ?case using a ev by auto
next
  case (Suc n)
  then have rc: "rc < max_retries S" by simp
  from Suc.prems(3) obtain e t where a: "attempt X S code = (Inl e, t)" by blast
  from repaired obtain code' e1 t1 where r: "repair code e = Inr code'"
    and a': "attempt X S code' = (Inl e1, t1)" by blast
  have ev: "filter is_invocation t = [ExecuteCode code] \<or> filter is_invocation t = [GroupingCheckFailed code]"
    using attempt_invocation_event [of X S code] a by simp
  obtain res t' where l: "execute_loop X S (rc + 1) code' = (res, t')"
    by (cases "execute_loop X S (rc + 1) code'")
  have "rc + 1 \<le> max_retries S" "nat (max_retries S - (rc + 1)) = n"
    using rc Suc.prems by simp_all
  moreover have "\<exists>e t. attempt X S code' = (Inl e, t)"
    using a' by blast
  ultimately obtain c e' t'' where
    ih: "length (filter is_invocation t') = n + 1"
        "last (filter is_invocation t') \<in> {ExecuteCode c, GroupingCheckFailed c}"
        "attempt X S c = (Inl e', t'')" "res = Inl e'"
    using Suc.IH [of "rc + 1" code'] l by auto
  have q: "\<forall>notify. on_failure S = Some notify \<longrightarrow> notify code e = None"
    using quiet by blast
  have le: "rc \<le> max_retries S" using rc by simp
  have "execute_loop X S rc code
          = (res, (t @ (case on_failure S of None \<Rightarrow> [] | Some notify \<Rightarrow> [OnFailure code e]))
                    @ OnRetry code e # t')"
    using execute_loop_failed [OF a le q] rc ecf rep r l by (simp add: Let_def)
  then have fst_eq: "fst (execute_loop X S rc code) = res"
    and flt: "filter is_invocation (snd (execute_loop X S rc code))
                = filter is_invocation t @ filter is_invocation t'"
    by (simp_all split: option.splits)
  have "filter is_invocation t' \<noteq> []" using ih(1) by auto
  with flt have "length (filter is_invocation (snd (execute_loop X S rc code))) = Suc n + 1"
    "last (filter is_invocation (snd (execute_loop X S rc code))) = last (filter is_invocation t')"
    using ev ih(1) by auto
  with ih fst_eq show ?case by auto
qed

text \<open>
  C2: whatever the retry budget (a non-negative integer), when error correction is disabled
  or no repair callback was supplied, a snippet whose attempt fails causes exactly one
  sandbox invocation, and the exception of that first failure is what \<^verbatim>\<open>execute\<close>
  raises. (The failure notification hook, if any, is one that returns.)
\<close>

theorem no_correction_single_attempt:
  assumes "0 \<le> max_retries S"
      and "attempt X S code = (Inl e, trace)"
      and "\<not> use_error_correction_framework S \<or> on_retry S = None"
      and "\<forall>notify. on_failure S = Some notify \<longrightarrow> notify code e = None"
  shows "fst (execute X S code) = Inl e \<and> sandbox_invocations (snd (execute X S code)) = 1"
proof -
  have inv: "sandbox_invocations trace = 1"
    using attempt_invocations [of X S code] assms(2) by simp
  show ?thesis
    using assms inv
    by (auto simp: execute_def execute_loop.simps [of X S 0 code] split: option.splits)
qed

theorem no_correction_single_attempt_witness:
  "fst (execute example_collaborators plain_stage snippet_a) = Inl (Raised ''KeyError'')
   \<and> sandbox_invocations (snd (execute example_collaborators plain_stage snippet_a)) = 1"
proof -
  have 1: "0 \<le> max_retries plain_stage"
    by (simp add: plain_stage_def example_stage_def)
  have 2: "attempt example_collaborators plain_stage snippet_a =
     (Inl (Raised ''KeyError''),
      [ExecuteCode snippet_a, Materialize 0 [(Val (CStr ''age''), ''>'', Val (CNum 30))], Exec snippet_a])"
    by code_simp
  have 3: "\<not> use_error_correction_framework plain_stage \<or> on_retry plain_stage = None"
    by (simp add: plain_stage_def)
  have 4: "\<forall>notify. on_failure plain_stage = Some notify \<longrightarrow> notify snippet_a (Raised ''KeyError'') = None"
    by (simp add: plain_stage_def example_stage_def)
  show ?thesis
    using no_correction_single_attempt [OF 1 2 3 4] .
qed

text \<open>
  C1: with error correction enabled, a retry budget \<open>k \<ge> 0\<close>, an input snippet whose
  attempt fails and a repair callback that always returns a snippet whose attempt fails,
  \<^verbatim>\<open>execute\<close> invokes the sandbox exactly \<open>k + 1\<close> times and then raises the very
  exception with which the last invoked attempt failed: the exception itself, not one
  wrapping it. (The failure notification hook, if any, is one that returns.)
\<close>

theorem exhausted_retries_reraise:
  assumes "0 \<le> max_retries S"
    and "use_error_correction_framework S"
    and "on_retry S = Some repair"
    and "\<exists>e t. attempt X S code = (Inl e, t)"
    and "\<forall>c e. \<exists>c' e' t'. repair c e = Inr c' \<and> attempt X S c' = (Inl e', t')"
    and "\<forall>notify c e. on_failure S = Some notify \<longrightarrow> notify c e = None"
  shows "\<exists>c e t. sandbox_invocations (snd (execute X S code)) = nat (max_retries S) + 1
       \<and> last (filter is_invocation (snd (execute X S code))) \<in> {ExecuteCode c, GroupingCheckFailed c}
       \<and> attempt X S c = (Inl e, t)
       \<and> fst (execute X S code) = Inl e"
  using loop_exhausts [OF assms(2,3,5,6), of 0 "nat (max_retries S)" code] assms(1,4)
  by (simp add: execute_def sandbox_invocations_def)

theorem exhausted_retries_reraise_witness:
  "\<exists>c e t. sandbox_invocations (snd (execute example_collaborators looping_stage snippet_a)) = 3
       \<and> last (filter is_invocation (snd (execute example_collaborators looping_stage snippet_a)))
            \<in> {ExecuteCode c, GroupingCheckFailed c}
       \<and> attempt example_collaborators looping_stage c = (Inl e, t)
       \<and> fst (execute example_collaborators looping_stage snippet_a) = Inl e"
proof -
  have 1: "0 \<le> max_retries looping_stage" "use_error_correction_framework looping_stage"
    "on_retry looping_stage = Some (\<lambda>code e. Inr snippet_a)"
    by (simp_all add: looping_stage_def example_stage_def)
  have a: "attempt example_collaborators looping_stage snippet_a =
     (Inl (Raised ''KeyError''),
      [ExecuteCode snippet_a, Materialize 0 [(Val (CStr ''age''), ''>'', Val (CNum 30))], Exec snippet_a])"
    by code_simp
  then have 2: "\<exists>e t. attempt example_collaborators looping_stage snippet_a = (Inl e, t)"
    by blast
  have 3: "\<forall>c e. \<exists>c' e' t'. (\<lambda>code e. Inr snippet_a :: exn + string) c e = Inr c'
             \<and> attempt example_collaborators looping_stage c' = (Inl e', t')"
    using a by simp
  have 4: "\<forall>notify c e. on_failure looping_stage = Some notify \<longrightarrow> notify c e = None"
    by (simp add: looping_stage_def example_stage_def)
  have 5: "nat (max_retries looping_stage) + 1 = 3"
    by (simp add: looping_stage_def example_stage_def)
  show ?thesis
    using exhausted_retries_reraise [OF 1 2 3 4] unfolding 5 .
qed

section \<open>Dataset scoping\<close>

lemma required_dfs_all: "py_in ''for df in dfs'' code \<or> py_in ''pd.concat(dfs'' code \<Longrightarrow> required_dfs ds code = map Some ds"
  by (simp add: required_dfs_def)

lemma required_dfs_masked:
  assumes "\<not> (py_in ''for df in dfs'' code \<or> py_in ''pd.concat(dfs'' code)"
  shows "required_dfs ds code =
           map (\<lambda>(i, df). if py_in (dfs_label (str_of_nat i)) code then Some df else None) (enumerate 0 ds)"
  using assms by (cases ds) (simp_all add: required_dfs_def Let_def)

lemma get_originals_loop_materialized:
  "Materialize i fs \<in> set (snd (get_originals_loop X cc xs)) \<Longrightarrow> \<exists>df. (i, Some df) \<in> set xs"
proof (induction xs)
  case Nil
  then show ?case by simp
next
  case (Cons x xs)
  obtain index d where x: "x = (index, d)" by (cases x)
  show ?case
  proof (cases d)
    case None
    with Cons x show ?thesis
      by (auto split: sum.splits prod.splits)
  next
    case (Some df)
    with Cons x show ?thesis
      by (auto simp: Let_def split: sum.splits prod.splits option.splits)
  qed
qed

text \<open>
  C6, as stated, fails in its "exactly when": with one dataset, a snippet that mentions
  \<^verbatim>\<open>dfs[0]\<close> and contains neither idiom gets the full dataset list.
\<close>

theorem required_dfs_full_counterexample:
  "required_dfs [''loans''] ''result = dfs[0].shape'' = map Some [''loans'']
   \<and> \<not> (py_in ''for df in dfs'' ''result = dfs[0].shape''
          \<or> py_in ''pd.concat(dfs'' ''result = dfs[0].shape'')"
  by code_simp

text \<open>
  C6, amended: the required-dataset computation returns the whole dataset list exactly
  when the snippet contains the all-datasets idiom (a loop over \<^verbatim>\<open>dfs\<close> or a
  concatenation of \<^verbatim>\<open>dfs\<close>) or the token \<^verbatim>\<open>dfs[i]\<close> of every position of the list
  occurs in it. Without the idiom it returns a list of the same length whose position
  \<open>i\<close> holds the dataset handle if the token \<^verbatim>\<open>dfs[i]\<close> occurs in the snippet and the
  null placeholder if not. A slot that holds the null placeholder is never materialized:
  every materialization is of a slot that holds its handle.
\<close>

theorem required_dfs_scoping:
  "(required_dfs ds code = map Some ds \<longleftrightarrow>
      py_in ''for df in dfs'' code \<or> py_in ''pd.concat(dfs'' code
      \<or> (\<forall>i < length ds. py_in (dfs_label (str_of_nat i)) code))
   \<and> (\<not> (py_in ''for df in dfs'' code \<or> py_in ''pd.concat(dfs'' code) \<longrightarrow>
        length (required_dfs ds code) = length ds
        \<and> (\<forall>i < length ds. required_dfs ds code ! i
              = (if py_in (dfs_label (str_of_nat i)) code then Some (ds ! i) else None)))
   \<and> (\<forall>i fs. Materialize i fs \<in> set (snd (get_originals X cc (required_dfs ds code))) \<longrightarrow>
         i < length ds \<and> required_dfs ds code ! i = Some (ds ! i))"
proof (intro conjI impI allI)
  show "required_dfs ds code = map Some ds \<longleftrightarrow>
      py_in ''for df in dfs'' code \<or> py_in ''pd.concat(dfs'' code
      \<or> (\<forall>i < length ds. py_in (dfs_label (str_of_nat i)) code)"
  proof (cases "py_in ''for df in dfs'' code \<or> py_in ''pd.concat(dfs'' code")
    case True
    then have "required_dfs ds code = map Some ds" by (rule required_dfs_all)
    with True show ?thesis by blast
  next
    case False
    have "required_dfs ds code = map Some ds \<longleftrightarrow>
            (\<forall>i < length ds. required_dfs ds code ! i = map Some ds ! i)"
      by (auto simp: list_eq_iff_nth_eq required_dfs_masked [OF False])
    also have "\<dots> \<longleftrightarrow> (\<forall>i < length ds. py_in (dfs_label (str_of_nat i)) code)"
      by (auto simp: required_dfs_masked [OF False] nth_enumerate_eq)
    finally show ?thesis using False by simp
  qed
next
  assume n: "\<not> (py_in ''for df in dfs'' code \<or> py_in ''pd.concat(dfs'' code)"
  show "length (required_dfs ds code) = length ds"
    by (simp add: required_dfs_masked [OF n])
  fix i assume "i < length ds"
  then show "required_dfs ds code ! i = (if py_in (dfs_label (str_of_nat i)) code then Some (ds ! i) else None)"
    by (simp add: required_dfs_masked [OF n] nth_enumerate_eq)
next
  fix i fs
  assume m: "Materialize i fs \<in> set (snd (get_originals X cc (required_dfs ds code)))"
  have len: "length (required_dfs ds code) = length ds"
    by (cases "py_in ''for df in dfs'' code \<or> py_in ''pd.concat(dfs'' code")
       (simp_all add: required_dfs_all required_dfs_masked)
  from m obtain df where "(i, Some df) \<in> set (enumerate 0 (required_dfs ds code))"
    unfolding get_originals_def by (blast dest: get_originals_loop_materialized)
  then have i: "i < length ds" and at: "required_dfs ds code ! i = Some df"
    using len by (auto simp: in_set_enumerate_eq)
  have "required_dfs ds code ! i = Some (ds ! i) \<or> required_dfs ds code ! i = None"
    using i
    by (cases "py_in ''for df in dfs'' code \<or> py_in ''pd.concat(dfs'' code")
       (simp_all add: required_dfs_all required_dfs_masked nth_enumerate_eq)
  with at show "i < length ds" "required_dfs ds code ! i = Some (ds ! i)"
    using i by simp_all
qed

theorem required_dfs_scoping_witness:
  "required_dfs [''loans'', ''clients''] ''for df in dfs: print(df)'' = [Some ''loans'', Some ''clients'']
   \<and> length (required_dfs [''loans'', ''clients''] ''result = dfs[1].shape'') = 2
   \<and> required_dfs [''loans'', ''clients''] ''result = dfs[1].shape'' ! 0 = None
   \<and> required_dfs [''loans'', ''clients''] ''result = dfs[1].shape'' ! 1 = Some ''clients''
   \<and> Materialize 1 [] \<in> set (snd (get_originals example_collaborators snippet_a
                                     (required_dfs [''loans'', ''clients''] ''result = dfs[1].shape'')))"
proof -
  have a: "py_in ''for df in dfs'' ''for df in dfs: print(df)''"
    by simp
  have b: "\<not> (py_in ''for df in dfs'' ''result = dfs[1].shape'' \<or> py_in ''pd.concat(dfs'' ''result = dfs[1].shape'')"
    by simp
  have c: "\<not> py_in (dfs_label (str_of_nat 0)) ''result = dfs[1].shape''"
    "py_in (dfs_label (str_of_nat 1)) ''result = dfs[1].shape''"
    by code_simp+
  have d: "Materialize 1 [] \<in> set (snd (get_originals example_collaborators snippet_a
                                     (required_dfs [''loans'', ''clients''] ''result = dfs[1].shape'')))"
    by code_simp
  show ?thesis
    using required_dfs_scoping [where code = "''for df in dfs: print(df)''" and ds = "[''loans'', ''clients'']"
            and X = example_collaborators and cc = snippet_a]
          required_dfs_scoping [where code = "''result = dfs[1].shape''" and ds = "[''loans'', ''clients'']"
            and X = example_collaborators and cc = snippet_a]
          a b c d
    by simp
qed

section \<open>Snippets that do not parse\<close>

lemma get_originals_loop_unparseable:
  assumes "ast_parse X cc = None"
  shows "\<exists>df. Some df \<in> snd ` set xs \<Longrightarrow> get_originals_loop X cc xs = (Inl SyntaxError, [])"
  using assms
  by (induction X cc xs rule: get_originals_loop.induct)
     (auto simp: extract_filters_def)

text \<open>
  C7, as stated, fails. With grouping enforced, a snippet that does not parse and has no
  \<^verbatim>\<open>.groupby\<close> makes the stage raise the generic grouping exception; no parse is
  attempted. With error correction enabled and a repair callback, the parse failure is
  handled inside the stage: the snippet is replaced and the stage returns a result.
\<close>

theorem unparseable_snippet_counterexample:
  "ast_parse example_collaborators snippet_bad = None
   \<and> execute example_collaborators grouping_stage snippet_bad
       = (Inl (GenericException ''groupby() statement is missing. Group the data by ''),
          [GroupingCheckFailed snippet_bad])
   \<and> execute example_collaborators repairing_stage snippet_bad
       = (Inr (Some \<lparr>result_type = ''number'', result_value = Number 247\<rparr>),
          [ExecuteCode snippet_bad, OnRetry snippet_bad SyntaxError, ExecuteCode snippet_n, Exec snippet_n])"
  by code_simp

text \<open>
  C7, amended: for every snippet whose text does not parse, filter extraction raises the
  parse failure (\<open>SyntaxError\<close>) instead of degrading to the empty mapping; and an
  execution attempt on that snippet, when it is the current code of the context, the
  grouping check passes and at least one dataset slot is required, fails with that parse
  failure before any dataset is materialized and before the snippet is evaluated. Within
  the retry budget and with a notification hook that returns, the loop of the stage treats
  it as any other failure: it raises it unchanged, still with nothing materialized or
  evaluated, when correction is disabled, the budget is exhausted or there is no repair
  callback; otherwise it hands it to the repair callback and, when the callback returns a
  snippet, goes on with that snippet.
\<close>

theorem unparseable_snippet_attempt:
  assumes "ast_parse X code = None"
    and "current_code_executed S = code"
    and "\<not> enforce_grouping S \<or> py_in ''.groupby'' code"
    and "\<exists>df. Some df \<in> set (required_dfs (dfs S) code)"
    and "rc \<le> max_retries S"
    and "\<forall>notify. on_failure S = Some notify \<longrightarrow> notify code SyntaxError = None"
  shows "extract_filters (ast_parse X) (object_str X) code = Inl SyntaxError
       \<and> attempt X S code = (Inl SyntaxError, [ExecuteCode code])
       \<and> (\<not> use_error_correction_framework S \<or> max_retries S \<le> rc \<or> on_retry S = None \<longrightarrow>
            execute_loop X S rc code
              = (Inl SyntaxError,
                 ExecuteCode code
                   # (case on_failure S of None \<Rightarrow> [] | Some notify \<Rightarrow> [OnFailure code SyntaxError])))
       \<and> (\<forall>repair. use_error_correction_framework S \<and> rc < max_retries S \<and> on_retry S = Some repair \<longrightarrow>
            OnRetry code SyntaxError \<in> set (snd (execute_loop X S rc code))
            \<and> (\<forall>code'. repair code SyntaxError = Inr code' \<longrightarrow>
                  fst (execute_loop X S rc code) = fst (execute_loop X S (rc + 1) code')))"
proof -
  have 1: "extract_filters (ast_parse X) (object_str X) code = Inl SyntaxError"
    using assms(1) by (simp add: extract_filters_def)
  from assms(4) obtain df i where "i < length (required_dfs (dfs S) code)"
    "required_dfs (dfs S) code ! i = Some df"
    by (auto simp: in_set_conv_nth)
  then have "(i, Some df) \<in> set (enumerate 0 (required_dfs (dfs S) code))"
    by (simp add: in_set_enumerate_eq)
  then have "\<exists>df. Some df \<in> snd ` set (enumerate 0 (required_dfs (dfs S) code))"
    by force
  then have "get_originals X code (required_dfs (dfs S) code) = (Inl SyntaxError, [])"
    unfolding get_originals_def by (rule get_originals_loop_unparseable [OF assms(1)])
  then have "execute_code X S code = (Inl SyntaxError, [])"
    using assms(2) by (simp add: execute_code_def)
  then have 2: "attempt X S code = (Inl SyntaxError, [ExecuteCode code])"
    using assms(3) by (auto simp: attempt_def)
  note unfolded = execute_loop_failed [OF 2 assms(5,6)]
  have 3: "execute_loop X S rc code
              = (Inl SyntaxError,
                 ExecuteCode code
                   # (case on_failure S of None \<Rightarrow> [] | Some notify \<Rightarrow> [OnFailure code SyntaxError]))"
    if "\<not> use_error_correction_framework S \<or> max_retries S \<le> rc \<or> on_retry S = None"
    using that unfolded by (auto simp: Let_def)
  have 4: "OnRetry code SyntaxError \<in> set (snd (execute_loop X S rc code))
            \<and> (\<forall>code'. repair code SyntaxError = Inr code' \<longrightarrow>
                  fst (execute_loop X S rc code) = fst (execute_loop X S (rc + 1) code'))"
    if "use_error_correction_framework S \<and> rc < max_retries S \<and> on_retry S = Some repair" for repair
    using that unfolded by (cases "repair code SyntaxError") (auto simp: Let_def split: prod.splits)
  from 1 2 3 4 show ?thesis by blast
qed

theorem unparseable_snippet_attempt_witness:
  "extract_filters (ast_parse example_collaborators) (object_str example_collaborators) snippet_bad
     = Inl SyntaxError
   \<and> attempt example_collaborators unparseable_stage snippet_bad = (Inl SyntaxError, [ExecuteCode snippet_bad])
   \<and> execute_loop example_collaborators unparseable_stage 0 snippet_bad
       = (Inl SyntaxError, [ExecuteCode snippet_bad])
   \<and> OnRetry snippet_bad SyntaxError
       \<in> set (snd (execute_loop example_collaborators repairing_stage 0 snippet_bad))
   \<and> fst (execute_loop example_collaborators repairing_stage 0 snippet_bad)
       = fst (execute_loop example_collaborators repairing_stage (0 + 1) snippet_n)"
proof -
  have 1: "ast_parse example_collaborators snippet_bad = None"
    by code_simp
  have 2: "current_code_executed unparseable_stage = snippet_bad"
    "current_code_executed repairing_stage = snippet_bad"
    by (simp_all add: unparseable_stage_def repairing_stage_def)
  have 3: "\<not> enforce_grouping unparseable_stage \<or> py_in ''.groupby'' snippet_bad"
    "\<not> enforce_grouping repairing_stage \<or> py_in ''.groupby'' snippet_bad"
    by (simp_all add: unparseable_stage_def plain_stage_def repairing_stage_def example_stage_def)
  have "required_dfs (dfs unparseable_stage) snippet_bad = [Some ''loans'']"
    "required_dfs (dfs repairing_stage) snippet_bad = [Some ''loans'']"
    by code_simp+
  then have 4: "\<exists>df. Some df \<in> set (required_dfs (dfs unparseable_stage) snippet_bad)"
    "\<exists>df. Some df \<in> set (required_dfs (dfs repairing_stage) snippet_bad)"
    by simp_all
  have 5: "0 \<le> max_retries unparseable_stage" "0 \<le> max_retries repairing_stage"
    by (simp_all add: unparseable_stage_def plain_stage_def repairing_stage_def example_stage_def)
  have 6: "\<forall>notify. on_failure unparseable_stage = Some notify \<longrightarrow> notify snippet_bad SyntaxError = None"
    "\<forall>notify. on_failure repairing_stage = Some notify \<longrightarrow> notify snippet_bad SyntaxError = None"
    by (simp_all add: unparseable_stage_def plain_stage_def repairing_stage_def example_stage_def)
  have 7: "\<not> use_error_correction_framework unparseable_stage" "on_failure unparseable_stage = None"
    by (simp_all add: unparseable_stage_def plain_stage_def example_stage_def)
  have 8: "use_error_correction_framework repairing_stage \<and> 0 < max_retries repairing_stage
            \<and> on_retry repairing_stage = Some (\<lambda>code e. Inr snippet_n)"
    by (simp add: repairing_stage_def example_stage_def)
  show ?thesis
    using unparseable_snippet_attempt [OF 1 2(1) 3(1) 4(1) 5(1) 6(1)]
          unparseable_snippet_attempt [OF 1 2(2) 3(2) 4(2) 5(2) 6(2)] 7 8
    by simp
qed

section \<open>Output validation\<close>

text \<open>
  C8, as stated, fails: the value check comes second. With the hint \<^verbatim>\<open>number\<close>, a
  result tagged \<^verbatim>\<open>dataframe\<close> whose value is the scalar 5 is not shape-consistent, yet
  the attempt raises \<open>InvalidLLMOutputType\<close>, from the hint check.
\<close>

theorem value_mismatch_counterexample:
  "execute_code example_collaborators hinted_stage snippet_m
     = (Inr \<lparr>result_type = ''dataframe'', result_value = Number 5\<rparr>, [Exec snippet_m])
   \<and> \<not> validate_result example_collaborators \<lparr>result_type = ''dataframe'', result_value = Number 5\<rparr>
   \<and> attempt example_collaborators hinted_stage snippet_m
       = (Inl (InvalidLLMOutputType [''The result is not of the expected type number'']),
          [ExecuteCode snippet_m, Exec snippet_m])"
  by code_simp

text \<open>
  C8, amended: for every execution attempt that produced a result which passes the
  output-type hint check (or for which no hint is set) and whose value is not
  shape-consistent with its type tag, the attempt raises \<open>InvalidOutputValueMismatch\<close>
  with a message naming the type of the value and the tag; the loop catches it, and when
  correction is enabled, the budget is not exhausted and a repair callback exists, hands it
  to the repair callback and goes on with the snippet the callback returns.
\<close>

theorem value_mismatch_feeds_retry:
  assumes "\<not> enforce_grouping S \<or> py_in ''.groupby'' code"
    and "execute_code X S code = (Inr r, trace)"
    and "output_type S = None \<or> output_type S = Some [] \<or> (\<exists>hint. output_type S = Some hint \<and> fst (validate X hint r))"
    and "\<not> validate_result X r"
    and "e = InvalidOutputValueMismatch
               (''Value type '' @ type_str X (result_value r) @ '' must match with type '' @ result_type r)"
  shows "attempt X S code = (Inl e, ExecuteCode code # trace)
       \<and> (use_error_correction_framework S \<and> rc < max_retries S
            \<and> (\<forall>notify. on_failure S = Some notify \<longrightarrow> notify code e = None)
            \<and> (\<exists>repair. on_retry S = Some repair \<and> repair code e = Inr code')
          \<longrightarrow> fst (execute_loop X S rc code) = fst (execute_loop X S (rc + 1) code')
              \<and> OnRetry code e \<in> set (snd (execute_loop X S rc code)))"
proof -
  have c: "check_result X S r = Some e"
    using assms(3,4,5)
    by (auto simp: check_result_def mismatch_message_def split: option.splits prod.splits)
  have a: "attempt X S code = (Inl e, ExecuteCode code # trace)"
    using assms(1,2) c by (auto simp: attempt_def)
  have "fst (execute_loop X S rc code) = fst (execute_loop X S (rc + 1) code')
              \<and> OnRetry code e \<in> set (snd (execute_loop X S rc code))"
    if h: "use_error_correction_framework S \<and> rc < max_retries S
            \<and> (\<forall>notify. on_failure S = Some notify \<longrightarrow> notify code e = None)
            \<and> (\<exists>repair. on_retry S = Some repair \<and> repair code e = Inr code')"
  proof -
    from h obtain repair where r: "on_retry S = Some repair" "repair code e = Inr code'" by blast
    from h have le: "rc \<le> max_retries S" and q: "\<forall>notify. on_failure S = Some notify \<longrightarrow> notify code e = None"
      by simp_all
    show ?thesis
      using execute_loop_failed [OF a le q] h r
      by (simp add: Let_def split: prod.splits)
  qed
  with a show ?thesis by blast
qed

theorem value_mismatch_feeds_retry_witness:
  "attempt example_collaborators example_stage snippet_m
     = (Inl (InvalidOutputValueMismatch ''Value type <class 'int'> must match with type dataframe''),
        [ExecuteCode snippet_m, Exec snippet_m])
   \<and> fst (execute_loop example_collaborators example_stage 0 snippet_m)
       = fst (execute_loop example_collaborators example_stage (0 + 1) snippet_b)
   \<and> OnRetry snippet_m (InvalidOutputValueMismatch ''Value type <class 'int'> must match with type dataframe'')
       \<in> set (snd (execute_loop example_collaborators example_stage 0 snippet_m))"
proof -
  have 1: "\<not> enforce_grouping example_stage \<or> py_in ''.groupby'' snippet_m"
    by (simp add: example_stage_def)
  have 2: "execute_code example_collaborators example_stage snippet_m
             = (Inr \<lparr>result_type = ''dataframe'', result_value = Number 5\<rparr>, [Exec snippet_m])"
    by code_simp
  have 3: "output_type example_stage = None \<or> output_type example_stage = Some []
            \<or> (\<exists>hint. output_type example_stage = Some hint
                  \<and> fst (validate example_collaborators hint \<lparr>result_type = ''dataframe'', result_value = Number 5\<rparr>))"
    by (simp add: example_stage_def)
  have 4: "\<not> validate_result example_collaborators \<lparr>result_type = ''dataframe'', result_value = Number 5\<rparr>"
    by code_simp
  have 5: "InvalidOutputValueMismatch ''Value type <class 'int'> must match with type dataframe''
            = InvalidOutputValueMismatch
               (''Value type '' @ type_str example_collaborators (result_value \<lparr>result_type = ''dataframe'', result_value = Number 5\<rparr>)
                  @ '' must match with type '' @ result_type \<lparr>result_type = ''dataframe'', result_value = Number 5\<rparr>)"
    by (simp add: example_collaborators_def)
  have 6: "use_error_correction_framework example_stage \<and> 0 < max_retries example_stage
            \<and> (\<forall>notify. on_failure example_stage = Some notify \<longrightarrow>
                  notify snippet_m (InvalidOutputValueMismatch ''Value type <class 'int'> must match with type dataframe'') = None)
            \<and> (\<exists>repair. on_retry example_stage = Some repair
                  \<and> repair snippet_m (InvalidOutputValueMismatch ''Value type <class 'int'> must match with type dataframe'') = Inr snippet_b)"
    by (simp add: example_stage_def)
  show ?thesis
    using value_mismatch_feeds_retry [OF 1 2 3 4 5, of 0 snippet_b] 6 by blast
qed

section \<open>Filters of a retried snippet\<close>

text \<open>
  C9 at a concrete retry: the first snippet filters on \<^verbatim>\<open>age > 30\<close> and fails; the
  repair callback returns a snippet that filters on \<^verbatim>\<open>age < 20\<close>. The second attempt
  materializes slot 0 under \<^verbatim>\<open>age > 30\<close> again, the predicate of the first snippet,
  although extraction from the snippet about to run gives \<^verbatim>\<open>age < 20\<close>.
  Materialization does precede evaluation in both attempts.
\<close>

theorem stale_filters_on_retry:
  "execute example_collaborators example_stage snippet_a =
     (Inr (Some \<lparr>result_type = ''dataframe'', result_value = Table [[18]]\<rparr>),
      [ExecuteCode snippet_a, Materialize 0 [(Val (CStr ''age''), ''>'', Val (CNum 30))], Exec snippet_a,
       OnRetry snippet_a (Raised ''KeyError''),
       ExecuteCode snippet_b, Materialize 0 [(Val (CStr ''age''), ''>'', Val (CNum 30))], Exec snippet_b])
   \<and> extract_filters (ast_parse example_collaborators) (object_str example_collaborators) snippet_b
       = Inr [(''dfs[0]'', [(Val (CStr ''age''), ''<'', Val (CNum 20))])]"
  by code_simp

section \<open>Predicate extractor\<close>





lemma pairs_loop_fold:
  "pairs_loop cd left pairs comps = Inr comps' \<Longrightarrow>
     comps' = fold (append_at cd) (pair_predicates left pairs) comps
     \<and> length (pair_predicates left pairs) = length pairs"
proof (induction pairs arbitrary: comps)
  case Nil
  then show ?case by simp
next
  case (Cons p pairs)
  obtain op right where p: "p = (op, right)" by (cases p)
  from Cons.prems p obtain name slices where t: "tokenize_operand right = Inr (name # slices)"
    by (auto split: sum.splits list.splits elim: unpack.elims)
  with Cons.prems p have "pairs_loop cd left pairs
       (append_at cd (left, ast_comparator_map op, operand_str name slices) comps) = Inr comps'"
    by simp
  from Cons.IH [OF this] t p show ?case by simp
qed

lemma compare_node_fold:
  assumes "compare_node os asg n (cd, comps) = Inr (cd', comps')"
  shows "cd' = slot_after os asg cd n
       \<and> comps' = fold (append_at cd') (node_predicates n) comps
       \<and> length (node_predicates n) = node_pairs n"
proof (cases "is_subscript_compare n")
  case False
  then have "compare_node os asg n (cd, comps) = Inr (cd, comps)"
    "slot_after os asg cd n = cd" "node_predicates n = []" "node_pairs n = 0"
    by (induction n rule: is_subscript_compare.induct) simp_all
  with assms show ?thesis by simp
next
  case True
  then obtain ln v s ops comparators where n: "n = Compare ln (Subscript v s) ops comparators"
    by (induction n rule: is_subscript_compare.induct) simp_all
  from assms n obtain name slices where t: "tokenize_operand (Subscript v s) = Inr (name # slices)"
    by (auto simp del: tokenize_operand.simps split: sum.splits list.splits elim: unpack.elims)
  define cd1 where "cd1 = (case get_df_id_by_nearest_assignment os ln asg name of
                             Some label \<Rightarrow> label | None \<Rightarrow> cd)"
  from assms n t have "pairs_loop cd1 (operand_str name slices) (zip ops comparators) comps = Inr comps'"
    and cd': "cd' = cd1"
    by (auto simp del: tokenize_operand.simps simp: Let_def cd1_def split: sum.splits)
  from pairs_loop_fold [OF this(1)] cd' n t show ?thesis
    by (simp del: tokenize_operand.simps add: cd1_def)
qed


lemma fold_append_at_single:
  "fold (append_at s) ps [(s, qs)] = [(s, qs @ ps)]"
  by (induction ps arbitrary: qs) simp_all

lemma fold_append_at_empty:
  "ps \<noteq> [] \<Longrightarrow> fold (append_at s) ps [] = [(s, ps)]"
  by (cases ps) (simp_all add: fold_append_at_single)

lemma nodes_loop_single_slot:
  assumes "nodes_loop os asg ns (cd, comps) = Inr (cd', comps')"
    and "\<forall>l \<in> set (visited_slots os asg cd ns). l = s"
  shows "comps' = fold (append_at s) (concat (map node_predicates ns)) comps
       \<and> length (concat (map node_predicates ns)) = sum_list (map node_pairs ns)"
  using assms
proof (induction ns arbitrary: cd comps)
  case Nil
  then show ?case by simp
next
  case (Cons n ns)
  from Cons.prems(1) obtain cd1 comps1 where
    step: "compare_node os asg n (cd, comps) = Inr (cd1, comps1)"
    and rest: "nodes_loop os asg ns (cd1, comps1) = Inr (cd', comps')"
    by (auto split: sum.splits)
  from compare_node_fold [OF step] have
    cd1: "cd1 = slot_after os asg cd n"
    and c1: "comps1 = fold (append_at cd1) (node_predicates n) comps"
    and len: "length (node_predicates n) = node_pairs n"
    by simp_all
  show ?case
  proof (cases "is_subscript_compare n")
    case True
    with Cons.prems(2) cd1 have s: "cd1 = s"
      by simp
    from True Cons.prems(2) cd1 have all: "\<forall>l \<in> set (visited_slots os asg cd1 ns). l = s"
      by auto
    from Cons.IH [OF rest all] c1 s len show ?thesis by simp
  next
    case False
    then have e: "node_predicates n = []" "slot_after os asg cd n = cd"
      by (induction n rule: is_subscript_compare.induct) simp_all
    with Cons.prems(2) False cd1 have all: "\<forall>l \<in> set (visited_slots os asg cd1 ns). l = s"
      by simp
    from Cons.IH [OF rest all] c1 e len show ?thesis by simp
  qed
qed









text \<open>
  C5, as stated, fails: the predicates are listed in the order of the breadth-first walk,
  not in source order. In \<open>tree_u\<close> the comparison on line 2 lies deeper in the tree
  than the one on line 3, and its predicate comes last.
\<close>

theorem walk_order_counterexample:
  "extract_comparisons example_object_str tree_u
     = Inr [(''dfs[0]'', [(Val (CStr ''b''), ''<'', Val (CNum 2)), (Val (CStr ''b''), ''<='', Val (CNum 3)),
                          (Val (CStr ''a''), ''>'', Val (CNum 1))])]"
  by code_simp

text \<open>
  C5, amended: for every parsed snippet on which the extraction raises no exception, whose
  comparisons on subscripts are all attributed to one dataset label and contain \<open>N \<ge> 1\<close>
  pairs of operator and right operand in total (a chained comparison contributing one pair
  per operator), the extractor returns a mapping with exactly one entry, under that label,
  whose predicate list has length \<open>N\<close> and lists the predicates in the order in which the
  breadth-first walk visits the comparisons, the pairs of one comparison from left to right.
\<close>

theorem single_slot_predicates:
  assumes "extract_comparisons os tree = Inr m"
    and "\<forall>l \<in> set (visited_slots os (assignment_nodes tree) ''dfs[0]'' (walk tree)). l = s"
    and "0 < pair_count tree"
  shows "m = [(s, concat (map node_predicates (walk tree)))]
       \<and> length (concat (map node_predicates (walk tree))) = pair_count tree"
proof -
  from assms(1) obtain cd' where
    "nodes_loop os (assignment_nodes tree) (walk tree) (''dfs[0]'', []) = Inr (cd', m)"
    by (auto simp: extract_comparisons_def split: sum.splits prod.splits)
  from nodes_loop_single_slot [OF this assms(2)]
  have m: "m = fold (append_at s) (concat (map node_predicates (walk tree))) []"
    and len: "length (concat (map node_predicates (walk tree))) = pair_count tree"
    by (simp_all add: pair_count_def)
  from len assms(3) have "0 < length (concat (map node_predicates (walk tree)))"
    by simp
  then have "concat (map node_predicates (walk tree)) \<noteq> []"
    by (rule length_greater_0_conv [THEN iffD1])
  with m len show ?thesis
    by (simp add: fold_append_at_empty)
qed

theorem single_slot_predicates_witness:
  "[(''dfs[0]'', [(Val (CStr ''b''), ''<'', Val (CNum 2)), (Val (CStr ''b''), ''<='', Val (CNum 3)),
                  (Val (CStr ''a''), ''>'', Val (CNum 1))])]
     = [(''dfs[0]'', concat (map node_predicates (walk tree_u)))]
   \<and> length (concat (map node_predicates (walk tree_u))) = pair_count tree_u
   \<and> pair_count tree_u = 3"
proof -
  have 1: "extract_comparisons example_object_str tree_u
     = Inr [(''dfs[0]'', [(Val (CStr ''b''), ''<'', Val (CNum 2)), (Val (CStr ''b''), ''<='', Val (CNum 3)),
                          (Val (CStr ''a''), ''>'', Val (CNum 1))])]"
    by code_simp
  have "visited_slots example_object_str (assignment_nodes tree_u) ''dfs[0]'' (walk tree_u)
          = [''dfs[0]'', ''dfs[0]'']"
    by code_simp
  then have 2: "\<forall>l \<in> set (visited_slots example_object_str (assignment_nodes tree_u) ''dfs[0]'' (walk tree_u)).
                  l = ''dfs[0]''"
    by simp
  have 3: "pair_count tree_u = 3"
    by code_simp
  then have 4: "0 < pair_count tree_u"
    by simp
  show ?thesis
    using single_slot_predicates [OF 1 2 4] 3 by simp
qed

end
